theory Spec2Isabelle
  imports Complex_Main "HOL-Library.Char_ord" "HOL-Library.List_Lexorder"
begin

section \<open>Errors\<close>

text \<open>
  Every \<^verbatim>\<open>raise HTTPException(status_code=c, detail=d)\<close> of \<^verbatim>\<open>server.py\<close> is the value
  \<open>HTTPException c d\<close>. The other constructors are Python exceptions that no handler
  catches; the framework answers them with status 500.
\<close>

datatype error =
    HTTPException nat string
  | TypeError
  | OverflowError
  | ValueError
  | ValidationError

fun status_code :: "error \<Rightarrow> nat" where
  "status_code (HTTPException c d) = c"
| "status_code TypeError = 500"
| "status_code OverflowError = 500"
| "status_code ValueError = 500"
| "status_code ValidationError = 500"

section \<open>Numbers, strings and time\<close>

text \<open>
  Python's \<^verbatim>\<open>float\<close> values are modelled as exact rationals: sums, products and
  comparisons are the exact ones, and the binary rounding of IEEE doubles is left out.
  \<open>py_round2\<close> is \<^verbatim>\<open>round(x, 2)\<close> on such an exact value: the nearest multiple of
  \<open>1/100\<close>, a tie going to the even one.
\<close>

definition py_round2 :: "rat \<Rightarrow> rat" where
  "py_round2 x =
     (let y = x * 100; f = \<lfloor>y\<rfloor>; r = y - of_int f
      in of_int (if r < 1/2 then f
                 else if 1/2 < r then f + 1
                 else if even f then f else f + 1) / 100)"

text \<open>\<^verbatim>\<open>s.split(c)\<close> for a one-character separator: every occurrence cuts, empty pieces are kept.\<close>

fun split :: "char \<Rightarrow> string \<Rightarrow> string list" where
  "split c [] = [[]]"
| "split c (x # xs) =
     (if x = c then [] # split c xs
      else (case split c xs of [] \<Rightarrow> [[x]] | p # ps \<Rightarrow> (x # p) # ps))"

definition startswith :: "string \<Rightarrow> string \<Rightarrow> bool" where
  "startswith s p = (take (length p) s = p)"

text \<open>
  A \<^verbatim>\<open>datetime\<close>: \<open>wall\<close> is its clock reading in microseconds since 0001-01-01T00:00:00,
  \<open>tzinfo\<close> its UTC offset in microseconds, \<open>None\<close> for a naive value. An instant
  (\<^verbatim>\<open>datetime.now(timezone.utc)\<close>) is the number of microseconds on the UTC clock.
\<close>

record datetime =
  wall :: int
  tzinfo :: "int option"

definition utc :: "int \<Rightarrow> datetime" where
  "utc t = \<lparr>wall = t, tzinfo = Some 0\<rparr>"

definition one_day :: int where
  "one_day = 86400000000"

text \<open>Comparison and difference of two aware values go through UTC; of two naive values
  they use the clock readings; a naive value against an aware one raises \<^verbatim>\<open>TypeError\<close>.\<close>

definition dt_le :: "datetime \<Rightarrow> datetime \<Rightarrow> error + bool" where
  "dt_le a b =
     (case (tzinfo a, tzinfo b) of
        (None, None) \<Rightarrow> Inr (wall a \<le> wall b)
      | (Some oa, Some ob) \<Rightarrow> Inr (wall a - oa \<le> wall b - ob)
      | _ \<Rightarrow> Inl TypeError)"

definition dt_less :: "datetime \<Rightarrow> datetime \<Rightarrow> error + bool" where
  "dt_less a b =
     (case (tzinfo a, tzinfo b) of
        (None, None) \<Rightarrow> Inr (wall a < wall b)
      | (Some oa, Some ob) \<Rightarrow> Inr (wall a - oa < wall b - ob)
      | _ \<Rightarrow> Inl TypeError)"

definition dt_sub :: "datetime \<Rightarrow> datetime \<Rightarrow> error + int" where
  "dt_sub a b =
     (case (tzinfo a, tzinfo b) of
        (None, None) \<Rightarrow> Inr (wall a - wall b)
      | (Some oa, Some ob) \<Rightarrow> Inr ((wall a - oa) - (wall b - ob))
      | _ \<Rightarrow> Inl TypeError)"

text \<open>\<^verbatim>\<open>datetime.max\<close> is 9999-12-31T23:59:59.999999, the last microsecond of day 3652059.\<close>

definition dt_max :: int where
  "dt_max = 3652059 * 86400000000 - 1"

definition dt_add :: "datetime \<Rightarrow> int \<Rightarrow> error + datetime" where
  "dt_add a d =
     (if wall a + d < 0 \<or> dt_max < wall a + d then Inl OverflowError
      else Inr (a\<lparr>wall := wall a + d\<rparr>))"

section \<open>Documents and the store\<close>

record user =
  user_id :: string
  email :: string
  name :: string
  picture :: "string option"
  created_at :: int

record session =
  user_id :: string
  session_token :: string
  expires_at :: datetime
  created_at :: int

text \<open>
  A preferences document holds \<open>user_id\<close> and any subset of the goal fields: a field
  that the document lacks is \<open>None\<close>.
\<close>

record preferences =
  user_id :: string
  target_sleep_hours :: "rat option"
  usual_sleep_time :: "string option"
  usual_wake_time :: "string option"
  late_night_days :: "string list option"
  daily_calorie_goal :: "int option"
  daily_protein_goal :: "int option"
  setup_completed :: "bool option"

text \<open>
  The log documents are the dumps of the models \<^verbatim>\<open>AlcoholLog\<close> ... \<^verbatim>\<open>ExerciseLog\<close>, the only
  documents the handlers insert, so every field is present. The fields \<^verbatim>\<open>id\<close> and \<^verbatim>\<open>notes\<close> are \<open>id'\<close> and \<open>notes'\<close>.
\<close>

record alcohol_log =
  id' :: string
  user_id :: string
  drink_id :: string
  drink_name :: string
  servings :: rat
  standard_drinks :: rat
  logged_at :: int
  date :: string

record sleep_log =
  id' :: string
  user_id :: string
  sleep_time :: datetime
  wake_time :: datetime
  hours_slept :: rat
  date :: string

record nutrition_log =
  id' :: string
  user_id :: string
  meal_description :: string
  calories :: int
  protein :: rat
  is_healthy :: bool
  meal_type :: string
  logged_at :: int
  date :: string

record spending_log =
  id' :: string
  user_id :: string
  amount :: rat
  category :: string
  notes' :: string
  logged_at :: int
  date :: string

record exercise_log =
  id' :: string
  user_id :: string
  exercise_type :: string
  duration_minutes :: int
  notes' :: "string option"
  logged_at :: int
  date :: string

section \<open>Input models\<close>

text \<open>The body the identity provider returns for a session id (\<^verbatim>\<open>resp.json()\<close>).\<close>

record session_data =
  email :: string
  name :: string
  picture :: "string option"
  session_token :: string

text \<open>\<^verbatim>\<open>PreferencesUpdate\<close>: every field is optional, \<open>None\<close> when the body omits it.\<close>

record preferences_update =
  target_sleep_hours :: "rat option"
  usual_sleep_time :: "string option"
  usual_wake_time :: "string option"
  late_night_days :: "string list option"
  daily_calorie_goal :: "int option"
  daily_protein_goal :: "int option"
  setup_completed :: "bool option"

section \<open>The store\<close>

text \<open>The database: one list of documents per collection, in insertion order.\<close>

record db =
  users :: "user list"
  user_sessions :: "session list"
  user_preferences :: "preferences list"
  alcohol_logs :: "alcohol_log list"
  sleep_logs :: "sleep_log list"
  nutrition_logs :: "nutrition_log list"
  spending_logs :: "spending_log list"
  exercise_logs :: "exercise_log list"

text \<open>
  The collection operations the handlers call. A query is the predicate its filter
  document denotes. \<open>find_one\<close> yields the first match, \<open>to_list n\<close> the first \<open>n\<close>
  matches, \<open>delete_one\<close> removes the first match and reports \<^verbatim>\<open>deleted_count\<close>.
\<close>

definition find_one :: "('a \<Rightarrow> bool) \<Rightarrow> 'a list \<Rightarrow> 'a option" where
  "find_one q c = List.find q c"

definition find_to_list :: "('a \<Rightarrow> bool) \<Rightarrow> nat \<Rightarrow> 'a list \<Rightarrow> 'a list" where
  "find_to_list q n c = take n (filter q c)"

definition insert_one :: "'a \<Rightarrow> 'a list \<Rightarrow> 'a list" where
  "insert_one d c = c @ [d]"

definition delete_many :: "('a \<Rightarrow> bool) \<Rightarrow> 'a list \<Rightarrow> 'a list" where
  "delete_many q c = filter (\<lambda>d. \<not> q d) c"

fun delete_one :: "('a \<Rightarrow> bool) \<Rightarrow> 'a list \<Rightarrow> 'a list \<times> nat" where
  "delete_one q [] = ([], 0)"
| "delete_one q (d # c) =
     (if q d then (c, 1) else (case delete_one q c of (c', k) \<Rightarrow> (d # c', k)))"

section \<open>Authentication\<close>

text \<open>What the authenticator reads of a request: its cookies and its headers, a header
  being looked up under its canonical name.\<close>

record request =
  cookies :: "string \<rightharpoonup> string"
  headers :: "string \<rightharpoonup> string"

text \<open>Python's truth value of an optional string: \<^verbatim>\<open>None\<close> and \<^verbatim>\<open>""\<close> are false.\<close>

fun truthy :: "string option \<Rightarrow> bool" where
  "truthy None = False"
| "truthy (Some s) = (s \<noteq> [])"

text \<open>The first lines of \<^verbatim>\<open>get_current_user\<close>: the cookie, and the bearer header when the
  cookie is missing or empty.\<close>

definition request_session_token :: "request \<Rightarrow> string option" where
  "request_session_token request =
     (let cookie = cookies request ''session_token''
      in if \<not> truthy cookie then
           (case headers request ''Authorization'' of
              None \<Rightarrow> cookie
            | Some auth_header \<Rightarrow>
                if auth_header \<noteq> [] \<and> startswith auth_header ''Bearer ''
                then (case split CHR '' '' auth_header of
                        _ # t # _ \<Rightarrow> Some t
                      | _ \<Rightarrow> cookie)
                else cookie)
         else cookie)"

definition get_current_user :: "db \<Rightarrow> int \<Rightarrow> request \<Rightarrow> error + user" where
  "get_current_user d now request =
     (let token = request_session_token request
      in if \<not> truthy token then Inl (HTTPException 401 ''Not authenticated'')
         else
           (case find_one (\<lambda>s. Some (session.session_token s) = token) (user_sessions d) of
              None \<Rightarrow> Inl (HTTPException 401 ''Invalid session'')
            | Some session \<Rightarrow>
                let stored = expires_at session;
                    expiry = (if tzinfo stored = None then stored\<lparr>tzinfo := Some 0\<rparr> else stored)
                in (case dt_less expiry (utc now) of
                      Inl e \<Rightarrow> Inl e
                    | Inr True \<Rightarrow> Inl (HTTPException 401 ''Session expired'')
                    | Inr False \<Rightarrow>
                        (case find_one (\<lambda>u. user.user_id u = session.user_id session) (users d) of
                           None \<Rightarrow> Inl (HTTPException 401 ''User not found'')
                         | Some u \<Rightarrow> Inr u))))"

section \<open>Deleting logs\<close>

definition delete_alcohol_log :: "db \<Rightarrow> string \<Rightarrow> user \<Rightarrow> (error + string) \<times> db" where
  "delete_alcohol_log d log_id user =
     (case delete_one (\<lambda>l. alcohol_log.id' l = log_id \<and> alcohol_log.user_id l = user.user_id user)
             (alcohol_logs d) of
        (c, deleted_count) \<Rightarrow>
          if deleted_count = 0 then (Inl (HTTPException 404 ''Log not found''), d\<lparr>alcohol_logs := c\<rparr>)
          else (Inr ''Deleted'', d\<lparr>alcohol_logs := c\<rparr>))"

definition delete_sleep_log :: "db \<Rightarrow> string \<Rightarrow> user \<Rightarrow> (error + string) \<times> db" where
  "delete_sleep_log d log_id user =
     (case delete_one (\<lambda>l. sleep_log.id' l = log_id \<and> sleep_log.user_id l = user.user_id user)
             (sleep_logs d) of
        (c, deleted_count) \<Rightarrow>
          if deleted_count = 0 then (Inl (HTTPException 404 ''Log not found''), d\<lparr>sleep_logs := c\<rparr>)
          else (Inr ''Deleted'', d\<lparr>sleep_logs := c\<rparr>))"

definition delete_nutrition_log :: "db \<Rightarrow> string \<Rightarrow> user \<Rightarrow> (error + string) \<times> db" where
  "delete_nutrition_log d log_id user =
     (case delete_one (\<lambda>l. nutrition_log.id' l = log_id \<and> nutrition_log.user_id l = user.user_id user)
             (nutrition_logs d) of
        (c, deleted_count) \<Rightarrow>
          if deleted_count = 0 then (Inl (HTTPException 404 ''Log not found''), d\<lparr>nutrition_logs := c\<rparr>)
          else (Inr ''Deleted'', d\<lparr>nutrition_logs := c\<rparr>))"

definition delete_spending_log :: "db \<Rightarrow> string \<Rightarrow> user \<Rightarrow> (error + string) \<times> db" where
  "delete_spending_log d log_id user =
     (case delete_one (\<lambda>l. spending_log.id' l = log_id \<and> spending_log.user_id l = user.user_id user)
             (spending_logs d) of
        (c, deleted_count) \<Rightarrow>
          if deleted_count = 0 then (Inl (HTTPException 404 ''Log not found''), d\<lparr>spending_logs := c\<rparr>)
          else (Inr ''Deleted'', d\<lparr>spending_logs := c\<rparr>))"

definition delete_exercise_log :: "db \<Rightarrow> string \<Rightarrow> user \<Rightarrow> (error + string) \<times> db" where
  "delete_exercise_log d log_id user =
     (case delete_one (\<lambda>l. exercise_log.id' l = log_id \<and> exercise_log.user_id l = user.user_id user)
             (exercise_logs d) of
        (c, deleted_count) \<Rightarrow>
          if deleted_count = 0 then (Inl (HTTPException 404 ''Log not found''), d\<lparr>exercise_logs := c\<rparr>)
          else (Inr ''Deleted'', d\<lparr>exercise_logs := c\<rparr>))"

section \<open>Calendar dates\<close>

text \<open>
  A \<^verbatim>\<open>date\<close> is its proleptic Gregorian ordinal (\<^verbatim>\<open>date.toordinal()\<close>, day 1 is
  0001-01-01), so that \<^verbatim>\<open>d - timedelta(days=k)\<close> is \<open>d - k\<close>. Year, month and day are
  recovered as \<^verbatim>\<open>date.fromordinal\<close> does, and \<^verbatim>\<open>isoformat\<close> prints them as
  \<^verbatim>\<open>YYYY-MM-DD\<close>.
\<close>

definition is_leap :: "int \<Rightarrow> bool" where
  "is_leap y = (y mod 4 = 0 \<and> (y mod 100 \<noteq> 0 \<or> y mod 400 = 0))"


definition days_in_month :: "int \<Rightarrow> int \<Rightarrow> int" where
  "days_in_month y m =
     (if m = 2 \<and> is_leap y then 29
      else [31, 28, 31, 30, 31, 30, 31, 31, 30, 31, 30, 31] ! nat (m - 1))"

definition days_before_month :: "int \<Rightarrow> int \<Rightarrow> int" where
  "days_before_month y m =
     [0, 31, 59, 90, 120, 151, 181, 212, 243, 273, 304, 334] ! nat (m - 1)
       + (if 2 < m \<and> is_leap y then 1 else 0)"


definition ord2ymd :: "int \<Rightarrow> int \<times> int \<times> int" where
  "ord2ymd n0 =
     (let n = n0 - 1;
          n400 = n div 146097; n = n mod 146097;
          n100 = n div 36524; n = n mod 36524;
          n4 = n div 1461; n = n mod 1461;
          n1 = n div 365; n = n mod 365;
          y = n400 * 400 + 1 + n100 * 100 + n4 * 4 + n1
      in if n1 = 4 \<or> n100 = 4 then (y - 1, 12, 31)
         else
           let leapyear = (n1 = 3 \<and> (n4 \<noteq> 24 \<or> n100 = 3));
               m = (n + 50) div 32;
               preceding = days_before_month 1 m + (if 2 < m \<and> leapyear then 1 else 0)
           in if n < preceding
              then let m' = m - 1;
                       preceding' = preceding
                         - (days_in_month 1 m' + (if m' = 2 \<and> leapyear then 1 else 0))
                   in (y, m', n - preceding' + 1)
              else (y, m, n - preceding + 1))"


text \<open>Decimal digits of a natural number, and \<^verbatim>\<open>%0wd\<close>.\<close>

fun decimal :: "nat \<Rightarrow> string" where
  "decimal n =
     (if n < 10 then [''0123456789'' ! n]
      else decimal (n div 10) @ [''0123456789'' ! (n mod 10)])"

definition zero_pad :: "nat \<Rightarrow> nat \<Rightarrow> string" where
  "zero_pad w n = replicate (w - length (decimal n)) CHR ''0'' @ decimal n"

definition isoformat_ymd :: "int \<times> int \<times> int \<Rightarrow> string" where
  "isoformat_ymd ymd =
     (case ymd of (y, m, d) \<Rightarrow>
        zero_pad 4 (nat y) @ ''-'' @ zero_pad 2 (nat m) @ ''-'' @ zero_pad 2 (nat d))"

definition isoformat :: "int \<Rightarrow> string" where
  "isoformat n = isoformat_ymd (ord2ymd n)"


section \<open>Session creation\<close>

record session_response =
  resp_user :: "user option"
  resp_setup_completed :: bool
  resp_cookie :: string

text \<open>
  \<^verbatim>\<open>create_session\<close>. The exchange with the identity provider is given by its outcome, the
  status \<open>resp_status\<close> and the body \<open>data\<close>; \<open>uuid_hex\<close> is \<^verbatim>\<open>uuid.uuid4().hex\<close> and
  \<open>now\<close> the clock. A failure leaves the store as it was.
\<close>

definition create_session ::
  "db \<Rightarrow> int \<Rightarrow> string \<Rightarrow> nat \<Rightarrow> session_data \<Rightarrow> error + (session_response \<times> db)" where
  "create_session d now uuid_hex resp_status data =
     (if resp_status \<noteq> 200 then Inl (HTTPException 401 ''Invalid session'')
      else
        let fresh_id = ''user_'' @ take 12 uuid_hex;
            existing_user = find_one (\<lambda>u. user.email u = session_data.email data) (users d);
            uid = (case existing_user of Some u \<Rightarrow> user.user_id u | None \<Rightarrow> fresh_id);
            d1 = (case existing_user of
                    Some u \<Rightarrow> d
                  | None \<Rightarrow>
                      d\<lparr>users := insert_one
                           \<lparr>user.user_id = fresh_id,
                            user.email = session_data.email data,
                            user.name = session_data.name data,
                            user.picture = session_data.picture data,
                            user.created_at = now\<rparr> (users d),
                        user_preferences := insert_one
                           \<lparr>preferences.user_id = fresh_id,
                            preferences.target_sleep_hours = Some (75 / 10),
                            preferences.usual_sleep_time = Some ''23:00'',
                            preferences.usual_wake_time = Some ''06:30'',
                            preferences.late_night_days = Some [],
                            preferences.daily_calorie_goal = Some 2000,
                            preferences.daily_protein_goal = Some 100,
                            preferences.setup_completed = Some False\<rparr> (user_preferences d)\<rparr>);
            token = session_data.session_token data;
            expiry = utc (now + 7 * one_day);
            d2 = d1\<lparr>user_sessions := insert_one
                       \<lparr>session.user_id = uid,
                        session.session_token = token,
                        expires_at = expiry,
                        session.created_at = now\<rparr>
                       (delete_many (\<lambda>s. session.user_id s = uid) (user_sessions d1))\<rparr>;
            found = find_one (\<lambda>u. user.user_id u = uid) (users d2);
            prefs = find_one (\<lambda>p. preferences.user_id p = uid) (user_preferences d2)
        in Inr (\<lparr>resp_user = found,
                 resp_setup_completed =
                   (case prefs of
                      None \<Rightarrow> False
                    | Some p \<Rightarrow> (case preferences.setup_completed p of None \<Rightarrow> False | Some b \<Rightarrow> b)),
                 resp_cookie = token\<rparr>, d2))"

section \<open>Preferences\<close>

text \<open>
  \<^verbatim>\<open>update_one(filter, {"$set": update_data}, upsert=True)\<close>: the first match gets the
  fields set; without a match the document made of the filter's equality fields and the
  set fields is inserted. An empty \<^verbatim>\<open>$set\<close> is accepted by the store and sets nothing.
\<close>

fun update_first :: "('a \<Rightarrow> bool) \<Rightarrow> ('a \<Rightarrow> 'a) \<Rightarrow> 'a list \<Rightarrow> 'a list" where
  "update_first q f [] = []"
| "update_first q f (d # c) = (if q d then f d # c else d # update_first q f c)"

definition update_one_upsert :: "('a \<Rightarrow> bool) \<Rightarrow> ('a \<Rightarrow> 'a) \<Rightarrow> 'a \<Rightarrow> 'a list \<Rightarrow> 'a list" where
  "update_one_upsert q f seed c =
     (case find_one q c of
        Some _ \<Rightarrow> update_first q f c
      | None \<Rightarrow> insert_one (f seed) c)"

text \<open>\<^verbatim>\<open>$set\<close> of the fields of the update that are not \<^verbatim>\<open>None\<close>.\<close>

definition set_fields :: "preferences_update \<Rightarrow> preferences \<Rightarrow> preferences" where
  "set_fields up p =
     \<lparr>preferences.user_id = preferences.user_id p,
      preferences.target_sleep_hours =
        (case preferences_update.target_sleep_hours up of
           None \<Rightarrow> preferences.target_sleep_hours p | Some v \<Rightarrow> Some v),
      preferences.usual_sleep_time =
        (case preferences_update.usual_sleep_time up of
           None \<Rightarrow> preferences.usual_sleep_time p | Some v \<Rightarrow> Some v),
      preferences.usual_wake_time =
        (case preferences_update.usual_wake_time up of
           None \<Rightarrow> preferences.usual_wake_time p | Some v \<Rightarrow> Some v),
      preferences.late_night_days =
        (case preferences_update.late_night_days up of
           None \<Rightarrow> preferences.late_night_days p | Some v \<Rightarrow> Some v),
      preferences.daily_calorie_goal =
        (case preferences_update.daily_calorie_goal up of
           None \<Rightarrow> preferences.daily_calorie_goal p | Some v \<Rightarrow> Some v),
      preferences.daily_protein_goal =
        (case preferences_update.daily_protein_goal up of
           None \<Rightarrow> preferences.daily_protein_goal p | Some v \<Rightarrow> Some v),
      preferences.setup_completed =
        (case preferences_update.setup_completed up of
           None \<Rightarrow> preferences.setup_completed p | Some v \<Rightarrow> Some v)\<rparr>"

text \<open>The document that holds \<open>user_id\<close> and nothing else.\<close>

definition only_user_id :: "string \<Rightarrow> preferences" where
  "only_user_id uid =
     \<lparr>preferences.user_id = uid,
      preferences.target_sleep_hours = None,
      preferences.usual_sleep_time = None,
      preferences.usual_wake_time = None,
      preferences.late_night_days = None,
      preferences.daily_calorie_goal = None,
      preferences.daily_protein_goal = None,
      preferences.setup_completed = None\<rparr>"

definition get_preferences :: "db \<Rightarrow> user \<Rightarrow> preferences" where
  "get_preferences d user =
     (case find_one (\<lambda>p. preferences.user_id p = user.user_id user) (user_preferences d) of
        None \<Rightarrow> (only_user_id (user.user_id user))\<lparr>preferences.setup_completed := Some False\<rparr>
      | Some prefs \<Rightarrow> prefs)"

definition update_preferences :: "db \<Rightarrow> preferences_update \<Rightarrow> user \<Rightarrow> preferences option \<times> db" where
  "update_preferences d update user =
     (let d' = d\<lparr>user_preferences :=
                   update_one_upsert (\<lambda>p. preferences.user_id p = user.user_id user)
                     (set_fields update) (only_user_id (user.user_id user))
                     (user_preferences d)\<rparr>
      in (find_one (\<lambda>p. preferences.user_id p = user.user_id user) (user_preferences d'), d'))"

section \<open>Reading goals from the preferences\<close>

text \<open>\<^verbatim>\<open>prefs.get(key, default) if prefs else default\<close>, for the three goals the handlers read.\<close>

definition pref_target_sleep :: "preferences option \<Rightarrow> rat" where
  "pref_target_sleep prefs =
     (case prefs of
        None \<Rightarrow> 75 / 10
      | Some p \<Rightarrow> (case preferences.target_sleep_hours p of None \<Rightarrow> 75 / 10 | Some v \<Rightarrow> v))"

definition pref_calorie_goal :: "preferences option \<Rightarrow> int" where
  "pref_calorie_goal prefs =
     (case prefs of
        None \<Rightarrow> 2000
      | Some p \<Rightarrow> (case preferences.daily_calorie_goal p of None \<Rightarrow> 2000 | Some v \<Rightarrow> v))"

definition pref_protein_goal :: "preferences option \<Rightarrow> int" where
  "pref_protein_goal prefs =
     (case prefs of
        None \<Rightarrow> 100
      | Some p \<Rightarrow> (case preferences.daily_protein_goal p of None \<Rightarrow> 100 | Some v \<Rightarrow> v))"

section \<open>Sleep logs\<close>

text \<open>
  \<^verbatim>\<open>log_sleep\<close>, from the two timestamps as \<^verbatim>\<open>datetime.fromisoformat\<close> parsed them;
  \<open>new_id\<close> is the generated \<^verbatim>\<open>uuid4\<close>. A delta of \<open>k\<close> microseconds is
  \<open>k / 3600000000\<close> hours.
\<close>

definition log_sleep ::
  "db \<Rightarrow> string \<Rightarrow> datetime \<Rightarrow> datetime \<Rightarrow> string \<Rightarrow> user \<Rightarrow> error + (sleep_log \<times> db)" where
  "log_sleep d new_id sleep wake day user =
     (case dt_le wake sleep of
        Inl e \<Rightarrow> Inl e
      | Inr crossing \<Rightarrow>
          (case (if crossing then dt_add wake one_day else Inr wake) of
             Inl e \<Rightarrow> Inl e
           | Inr wake' \<Rightarrow>
               (case dt_sub wake' sleep of
                  Inl e \<Rightarrow> Inl e
                | Inr delta \<Rightarrow>
                    let hours = of_int delta / 3600000000;
                        doc = \<lparr>sleep_log.id' = new_id,
                               sleep_log.user_id = user.user_id user,
                               sleep_time = sleep,
                               wake_time = wake',
                               hours_slept = py_round2 hours,
                               sleep_log.date = day\<rparr>
                    in Inr (doc, d\<lparr>sleep_logs := insert_one doc (sleep_logs d)\<rparr>))))"



section \<open>Nutrition logs\<close>

text \<open>
  What the meal analysis gives \<^verbatim>\<open>log_nutrition\<close>. The call raises (a timeout is a raise),
  or it returns a text in which the pattern \<^verbatim>\<open>\{[^}]+\}\<close> finds nothing, or the match is
  not JSON, or the match is a JSON object. Of the object only the three keys read are
  kept: a key is \<open>Missing\<close>, or holds a value that the field of \<^verbatim>\<open>NutritionLog\<close> accepts
  as \<open>v\<close> (\<open>Valid v\<close>), or holds a value that the field rejects (\<open>Invalid\<close>).
\<close>

datatype 'a json_field = Missing | Valid 'a | Invalid

datatype analysis =
    Raised
  | NoMatch
  | NotJson
  | Object "int json_field" "rat json_field" "bool json_field"

text \<open>\<^verbatim>\<open>nutrition_data.get(key, default)\<close>, \<open>None\<close> standing for a value the model rejects.\<close>

fun field_get :: "'a json_field \<Rightarrow> 'a \<Rightarrow> 'a option" where
  "field_get Missing dflt = Some dflt"
| "field_get (Valid v) dflt = Some v"
| "field_get Invalid dflt = None"

record nutrition_create =
  meal_description :: string
  meal_type :: string
  date :: string

definition log_nutrition ::
  "db \<Rightarrow> int \<Rightarrow> string \<Rightarrow> analysis \<Rightarrow> nutrition_create \<Rightarrow> user \<Rightarrow> error + (nutrition_log \<times> db)" where
  "log_nutrition d now new_id response entry user =
     (let derived =
            (case response of
               Raised \<Rightarrow> (Some 0, Some 0, Some False)
             | NoMatch \<Rightarrow> (Some 0, Some 0, Some False)
             | NotJson \<Rightarrow> (Some 0, Some 0, Some False)
             | Object c p h \<Rightarrow> (field_get c 0, field_get p 0, field_get h False))
      in case derived of
           (Some cal, Some prot, Some healthy) \<Rightarrow>
             let doc = \<lparr>nutrition_log.id' = new_id,
                        nutrition_log.user_id = user.user_id user,
                        nutrition_log.meal_description = nutrition_create.meal_description entry,
                        calories = cal,
                        protein = prot,
                        is_healthy = healthy,
                        nutrition_log.meal_type = nutrition_create.meal_type entry,
                        nutrition_log.logged_at = now,
                        nutrition_log.date = nutrition_create.date entry\<rparr>
             in Inr (doc, d\<lparr>nutrition_logs := insert_one doc (nutrition_logs d)\<rparr>)
         | _ \<Rightarrow> Inl ValidationError)"

section \<open>Spending summary\<close>

text \<open>
  \<^verbatim>\<open>int(s)\<close> on a string of ASCII digits; any other string is taken to raise
  \<^verbatim>\<open>ValueError\<close> (Python also accepts a sign, surrounding blanks and underscores).
\<close>

definition digit_value :: "char \<Rightarrow> nat option" where
  "digit_value c =
     (if c \<in> set ''0123456789'' then Some (of_char c - 48) else None)"

fun digits_value :: "nat \<Rightarrow> string \<Rightarrow> nat option" where
  "digits_value acc [] = Some acc"
| "digits_value acc (c # cs) =
     (case digit_value c of None \<Rightarrow> None | Some v \<Rightarrow> digits_value (acc * 10 + v) cs)"

definition py_int :: "string \<Rightarrow> nat option" where
  "py_int s = (if s = [] then None else digits_value 0 s)"

record spending_summary =
  total :: rat
  by_category :: "string \<rightharpoonup> rat"
  daily_totals :: "string \<rightharpoonup> rat"

text \<open>The two accumulations \<^verbatim>\<open>acc[k] = acc.get(k, 0) + amount\<close>, for a key \<open>k\<close> of the log.\<close>

fun add_up :: "(spending_log \<Rightarrow> string) \<Rightarrow> (string \<rightharpoonup> rat) \<Rightarrow> spending_log list \<Rightarrow> (string \<rightharpoonup> rat)" where
  "add_up key acc [] = acc"
| "add_up key acc (l # ls) =
     add_up key (acc(key l \<mapsto> (case acc (key l) of None \<Rightarrow> 0 | Some v \<Rightarrow> v) + amount l)) ls"

text \<open>The window of \<^verbatim>\<open>get_spending_summary\<close>: the pair \<^verbatim>\<open>(start_date, end_date)\<close>.\<close>

definition spending_window :: "int \<Rightarrow> string option \<Rightarrow> error + (string \<times> string)" where
  "spending_window today month =
     (if truthy month then
        (case split CHR ''-'' (the month) of
           [year, m] \<Rightarrow>
             (case py_int m of
                None \<Rightarrow> Inl ValueError
              | Some mi \<Rightarrow>
                  if mi = 12 then
                    (case py_int year of
                       None \<Rightarrow> Inl ValueError
                     | Some yi \<Rightarrow> Inr (year @ ''-'' @ m @ ''-01'', decimal (yi + 1) @ ''-01-01''))
                  else Inr (year @ ''-'' @ m @ ''-01'', year @ ''-'' @ zero_pad 2 (mi + 1) @ ''-01''))
         | _ \<Rightarrow> Inl ValueError)
      else
        (case ord2ymd today of
           (y, mo, dd) \<Rightarrow> Inr (isoformat_ymd (y, mo, 1), isoformat today)))"

definition get_spending_summary :: "db \<Rightarrow> int \<Rightarrow> string option \<Rightarrow> user \<Rightarrow> error + spending_summary" where
  "get_spending_summary d today month user =
     (case spending_window today month of
        Inl e \<Rightarrow> Inl e
      | Inr (start_date, end_date) \<Rightarrow>
          let logs = find_to_list
                       (\<lambda>l. spending_log.user_id l = user.user_id user
                            \<and> start_date \<le> spending_log.date l
                            \<and> spending_log.date l \<le> end_date)
                       1000 (spending_logs d)
          in Inr \<lparr>total = py_round2 (sum_list (map amount logs)),
                  by_category = add_up category Map.empty logs,
                  daily_totals = add_up spending_log.date Map.empty logs\<rparr>)"

section \<open>Daily completion\<close>

record completion =
  completion_date :: string
  exercise_done :: bool
  exercise_percentage :: nat
  sleep_consistent :: bool
  sleep_percentage :: nat
  sleep_hours :: rat
  alcohol_healthy :: bool
  alcohol_percentage :: nat
  alcohol_standard_drinks :: rat
  nutrition_hit_goals :: bool
  nutrition_percentage :: nat
  nutrition_calories :: int
  nutrition_protein :: rat
  total_percentage :: nat

definition get_completion :: "db \<Rightarrow> int \<Rightarrow> string option \<Rightarrow> user \<Rightarrow> completion" where
  "get_completion d today date_param user =
     (let day = (if \<not> truthy date_param then isoformat today else the date_param);
          prefs = find_one (\<lambda>p. preferences.user_id p = user.user_id user) (user_preferences d);
          target_sleep = pref_target_sleep prefs;
          calorie_goal = pref_calorie_goal prefs;
          protein_goal = pref_protein_goal prefs;
          exercise = find_to_list
                       (\<lambda>l. exercise_log.user_id l = user.user_id user \<and> exercise_log.date l = day)
                       100 (exercise_logs d);
          exercised = (0 < length exercise);
          sleeps = find_to_list
                     (\<lambda>l. sleep_log.user_id l = user.user_id user \<and> sleep_log.date l = day)
                     100 (sleep_logs d);
          consistent =
            (if sleeps \<noteq> [] then \<bar>sum_list (map hours_slept sleeps) - target_sleep\<bar> \<le> 15 / 10
             else False);
          alcohol = find_to_list
                      (\<lambda>l. alcohol_log.user_id l = user.user_id user \<and> alcohol_log.date l = day)
                      100 (alcohol_logs d);
          total_drinks = sum_list (map standard_drinks alcohol);
          healthy = (total_drinks \<le> 2);
          nutrition = find_to_list
                        (\<lambda>l. nutrition_log.user_id l = user.user_id user \<and> nutrition_log.date l = day)
                        100 (nutrition_logs d);
          total_calories = sum_list (map calories nutrition);
          total_protein = sum_list (map protein nutrition);
          hit = ((of_int calorie_goal * (9 / 10) \<le> (of_int total_calories :: rat)
                    \<and> (of_int total_calories :: rat) \<le> of_int calorie_goal * (11 / 10))
                 \<and> of_int protein_goal * (9 / 10) \<le> total_protein)
      in \<lparr>completion_date = day,
          exercise_done = exercised,
          exercise_percentage = (if exercised then 25 else 0),
          sleep_consistent = consistent,
          sleep_percentage = (if consistent then 25 else 0),
          sleep_hours = (if sleeps \<noteq> [] then sum_list (map hours_slept sleeps) else 0),
          alcohol_healthy = healthy,
          alcohol_percentage = (if healthy then 25 else 0),
          alcohol_standard_drinks = total_drinks,
          nutrition_hit_goals = hit,
          nutrition_percentage = (if hit then 25 else 0),
          nutrition_calories = total_calories,
          nutrition_protein = total_protein,
          total_percentage =
            (if exercised then 25 else 0) + (if consistent then 25 else 0)
              + (if healthy then 25 else 0) + (if hit then 25 else 0)\<rparr>)"

section \<open>Sample data\<close>

definition empty_db :: db where
  "empty_db = \<lparr>users = [], user_sessions = [], user_preferences = [], alcohol_logs = [],
     sleep_logs = [], nutrition_logs = [], spending_logs = [], exercise_logs = []\<rparr>"

definition alice :: user where
  "alice = \<lparr>user.user_id = ''user_a'', user.email = ''alice@example.com'', user.name = ''Alice'',
     user.picture = None, user.created_at = 0\<rparr>"

definition bob :: user where
  "bob = \<lparr>user.user_id = ''user_b'', user.email = ''bob@example.com'', user.name = ''Bob'',
     user.picture = None, user.created_at = 0\<rparr>"

definition bobs_run :: exercise_log where
  "bobs_run = \<lparr>exercise_log.id' = ''log-1'', exercise_log.user_id = ''user_b'',
     exercise_type = ''Running'', duration_minutes = 30, exercise_log.notes' = None,
     exercise_log.logged_at = 0, exercise_log.date = ''2024-01-01''\<rparr>"

definition bobs_db :: db where
  "bobs_db = empty_db\<lparr>exercise_logs := [bobs_run]\<rparr>"

text \<open>An update that only marks the setup as done.\<close>

definition finish_setup :: preferences_update where
  "finish_setup =
     \<lparr>preferences_update.target_sleep_hours = None,
      preferences_update.usual_sleep_time = None,
      preferences_update.usual_wake_time = None,
      preferences_update.late_night_days = None,
      preferences_update.daily_calorie_goal = None,
      preferences_update.daily_protein_goal = None,
      preferences_update.setup_completed = Some True\<rparr>"

section \<open>Reference notions for the authenticator\<close>

text \<open>The absolute UTC instant a stored timestamp denotes, a naive one being read as UTC.\<close>

definition instant :: "datetime \<Rightarrow> int" where
  "instant t = (case tzinfo t of None \<Rightarrow> wall t | Some off \<Rightarrow> wall t - off)"

text \<open>
  The token a request presents: the \<^verbatim>\<open>session_token\<close> cookie when it is non-empty, and
  otherwise the non-empty word that follows \<^verbatim>\<open>Bearer \<close> at the start of the
  \<^verbatim>\<open>Authorization\<close> header.
\<close>

definition token_of :: "request \<Rightarrow> string option" where
  "token_of r =
     (case cookies r ''session_token'' of
        Some (c # cs) \<Rightarrow> Some (c # cs)
      | _ \<Rightarrow>
        (case headers r ''Authorization'' of
           None \<Rightarrow> None
         | Some h \<Rightarrow>
             if take 7 h = ''Bearer '' \<and> takeWhile (\<lambda>x. x \<noteq> CHR '' '') (drop 7 h) \<noteq> []
             then Some (takeWhile (\<lambda>x. x \<noteq> CHR '' '') (drop 7 h))
             else None))"

definition alice_session :: session where
  "alice_session = \<lparr>session.user_id = ''user_a'', session.session_token = ''tok-a'',
     expires_at = utc 1000, session.created_at = 0\<rparr>"

definition auth_db :: db where
  "auth_db = empty_db\<lparr>users := [alice], user_sessions := [alice_session]\<rparr>"

definition cookie_request :: "string \<Rightarrow> request" where
  "cookie_request t = \<lparr>cookies = [''session_token'' \<mapsto> t], headers = Map.empty\<rparr>"

definition bearer_request :: "string \<Rightarrow> request" where
  "bearer_request t = \<lparr>cookies = Map.empty, headers = [''Authorization'' \<mapsto> ''Bearer '' @ t]\<rparr>"

section \<open>Reference notions for session creation\<close>

text \<open>The sessions a user holds, and the store property that nobody holds two.\<close>

definition sessions_of :: "db \<Rightarrow> string \<Rightarrow> session list" where
  "sessions_of d uid = filter (\<lambda>s. session.user_id s = uid) (user_sessions d)"

definition single_session :: "db \<Rightarrow> bool" where
  "single_session d = distinct (map session.user_id (user_sessions d))"

text \<open>The user a session exchange resolves to: the first user with the email of the
  exchanged data, and a fresh id when there is none.\<close>

definition login_user_id :: "db \<Rightarrow> string \<Rightarrow> session_data \<Rightarrow> string" where
  "login_user_id d uuid_hex data =
     (case find_one (\<lambda>u. user.email u = session_data.email data) (users d) of
        Some u \<Rightarrow> user.user_id u
      | None \<Rightarrow> ''user_'' @ take 12 uuid_hex)"

text \<open>A sequence of \<^verbatim>\<open>POST /auth/session\<close> requests, each given by clock, uuid, exchange
  status and exchange body; a failed one leaves the store as it was.\<close>

fun logins :: "db \<Rightarrow> (int \<times> string \<times> nat \<times> session_data) list \<Rightarrow> db" where
  "logins d [] = d"
| "logins d ((now, uuid_hex, resp_status, data) # rest) =
     (case create_session d now uuid_hex resp_status data of
        Inl _ \<Rightarrow> logins d rest
      | Inr (_, d') \<Rightarrow> logins d' rest)"

definition alice_data :: "string \<Rightarrow> session_data" where
  "alice_data t = \<lparr>session_data.email = ''alice@example.com'', session_data.name = ''Alice'',
     session_data.picture = None, session_data.session_token = t\<rparr>"

section \<open>Reference notions for the completion score\<close>


text \<open>The date a completion request asks about.\<close>

definition queried_day :: "int \<Rightarrow> string option \<Rightarrow> string" where
  "queried_day today date_param =
     (case date_param of None \<Rightarrow> isoformat today
      | Some s \<Rightarrow> if s = [] then isoformat today else s)"





section \<open>Sample weeks\<close>






section \<open>Reference notions for sleep logging\<close>

text \<open>Both timestamps naive, or both with an offset.\<close>

definition same_kind :: "datetime \<Rightarrow> datetime \<Rightarrow> bool" where
  "same_kind a b = ((tzinfo a = None) = (tzinfo b = None))"




section \<open>Reference notions for nutrition logging\<close>

text \<open>The log \<^verbatim>\<open>log_nutrition\<close> makes from the request and the three derived fields.\<close>

definition nutrition_doc ::
  "int \<Rightarrow> string \<Rightarrow> nutrition_create \<Rightarrow> user \<Rightarrow> int \<Rightarrow> rat \<Rightarrow> bool \<Rightarrow> nutrition_log" where
  "nutrition_doc now new_id entry u cal prot healthy =
     \<lparr>nutrition_log.id' = new_id,
      nutrition_log.user_id = user.user_id u,
      nutrition_log.meal_description = nutrition_create.meal_description entry,
      calories = cal,
      protein = prot,
      is_healthy = healthy,
      nutrition_log.meal_type = nutrition_create.meal_type entry,
      nutrition_log.logged_at = now,
      nutrition_log.date = nutrition_create.date entry\<rparr>"

text \<open>A field of the analysis object, with the default for a missing key.\<close>

fun or_default :: "'a json_field \<Rightarrow> 'a \<Rightarrow> 'a" where
  "or_default (Valid v) dflt = v"
| "or_default Missing dflt = dflt"
| "or_default Invalid dflt = dflt"

definition lunch :: nutrition_create where
  "lunch = \<lparr>nutrition_create.meal_description = ''Grilled chicken with quinoa'',
     nutrition_create.meal_type = ''lunch'', nutrition_create.date = ''2024-01-01''\<rparr>"

section \<open>Sample spending\<close>

text \<open>A purchase of 10 on the first of February 2024.\<close>

definition february_first :: spending_log where
  "february_first = \<lparr>spending_log.id' = ''p-1'', spending_log.user_id = ''user_a'',
     amount = 10, category = ''Food'', spending_log.notes' = ''Lunch'',
     spending_log.logged_at = 0, spending_log.date = ''2024-02-01''\<rparr>"

definition february_db :: db where
  "february_db = empty_db\<lparr>spending_logs := [february_first]\<rparr>"

section \<open>Properties of the collection operations\<close>

lemma delete_one_count: "snd (delete_one q c) = 0 \<longleftrightarrow> (\<forall>d\<in>set c. \<not> q d)"
  by (induction c) (auto split: prod.splits)

lemma delete_one_unchanged: "\<forall>d\<in>set c. \<not> q d \<Longrightarrow> fst (delete_one q c) = c"
  by (induction c) (auto split: prod.splits)

lemma delete_one_keeps: "l \<in> set c \<Longrightarrow> \<not> q l \<Longrightarrow> l \<in> set (fst (delete_one q c))"
  by (induction c) (auto split: prod.splits)

section \<open>Deleting a log checks its owner\<close>

lemma delete_alcohol_log_404:
  "fst (delete_alcohol_log d i u) = Inl (HTTPException 404 ''Log not found'')
     \<longleftrightarrow> (\<forall>l\<in>set (alcohol_logs d). \<not> (alcohol_log.id' l = i \<and> alcohol_log.user_id l = user.user_id u))"
  using delete_one_count [of "\<lambda>l. alcohol_log.id' l = i \<and> alcohol_log.user_id l = user.user_id u" "alcohol_logs d"]
  by (auto simp: delete_alcohol_log_def split: prod.splits)

lemma delete_alcohol_log_unchanged:
  "fst (delete_alcohol_log d i u) = Inl e \<Longrightarrow> snd (delete_alcohol_log d i u) = d"
  using delete_one_count [of "\<lambda>l. alcohol_log.id' l = i \<and> alcohol_log.user_id l = user.user_id u" "alcohol_logs d"]
    delete_one_unchanged [of "alcohol_logs d" "\<lambda>l. alcohol_log.id' l = i \<and> alcohol_log.user_id l = user.user_id u"]
  by (auto simp: delete_alcohol_log_def split: prod.splits if_splits)

lemma delete_alcohol_log_foreign:
  "l \<in> set (alcohol_logs d) \<Longrightarrow> alcohol_log.user_id l \<noteq> user.user_id u
     \<Longrightarrow> l \<in> set (alcohol_logs (snd (delete_alcohol_log d i u)))"
  using delete_one_keeps [of l "alcohol_logs d" "\<lambda>l. alcohol_log.id' l = i \<and> alcohol_log.user_id l = user.user_id u"]
  by (auto simp: delete_alcohol_log_def split: prod.splits if_splits)

lemma delete_sleep_log_404:
  "fst (delete_sleep_log d i u) = Inl (HTTPException 404 ''Log not found'')
     \<longleftrightarrow> (\<forall>l\<in>set (sleep_logs d). \<not> (sleep_log.id' l = i \<and> sleep_log.user_id l = user.user_id u))"
  using delete_one_count [of "\<lambda>l. sleep_log.id' l = i \<and> sleep_log.user_id l = user.user_id u" "sleep_logs d"]
  by (auto simp: delete_sleep_log_def split: prod.splits)

lemma delete_sleep_log_unchanged:
  "fst (delete_sleep_log d i u) = Inl e \<Longrightarrow> snd (delete_sleep_log d i u) = d"
  using delete_one_count [of "\<lambda>l. sleep_log.id' l = i \<and> sleep_log.user_id l = user.user_id u" "sleep_logs d"]
    delete_one_unchanged [of "sleep_logs d" "\<lambda>l. sleep_log.id' l = i \<and> sleep_log.user_id l = user.user_id u"]
  by (auto simp: delete_sleep_log_def split: prod.splits if_splits)

lemma delete_sleep_log_foreign:
  "l \<in> set (sleep_logs d) \<Longrightarrow> sleep_log.user_id l \<noteq> user.user_id u
     \<Longrightarrow> l \<in> set (sleep_logs (snd (delete_sleep_log d i u)))"
  using delete_one_keeps [of l "sleep_logs d" "\<lambda>l. sleep_log.id' l = i \<and> sleep_log.user_id l = user.user_id u"]
  by (auto simp: delete_sleep_log_def split: prod.splits if_splits)

lemma delete_nutrition_log_404:
  "fst (delete_nutrition_log d i u) = Inl (HTTPException 404 ''Log not found'')
     \<longleftrightarrow> (\<forall>l\<in>set (nutrition_logs d). \<not> (nutrition_log.id' l = i \<and> nutrition_log.user_id l = user.user_id u))"
  using delete_one_count [of "\<lambda>l. nutrition_log.id' l = i \<and> nutrition_log.user_id l = user.user_id u" "nutrition_logs d"]
  by (auto simp: delete_nutrition_log_def split: prod.splits)

lemma delete_nutrition_log_unchanged:
  "fst (delete_nutrition_log d i u) = Inl e \<Longrightarrow> snd (delete_nutrition_log d i u) = d"
  using delete_one_count [of "\<lambda>l. nutrition_log.id' l = i \<and> nutrition_log.user_id l = user.user_id u" "nutrition_logs d"]
    delete_one_unchanged [of "nutrition_logs d" "\<lambda>l. nutrition_log.id' l = i \<and> nutrition_log.user_id l = user.user_id u"]
  by (auto simp: delete_nutrition_log_def split: prod.splits if_splits)

lemma delete_nutrition_log_foreign:
  "l \<in> set (nutrition_logs d) \<Longrightarrow> nutrition_log.user_id l \<noteq> user.user_id u
     \<Longrightarrow> l \<in> set (nutrition_logs (snd (delete_nutrition_log d i u)))"
  using delete_one_keeps [of l "nutrition_logs d" "\<lambda>l. nutrition_log.id' l = i \<and> nutrition_log.user_id l = user.user_id u"]
  by (auto simp: delete_nutrition_log_def split: prod.splits if_splits)

lemma delete_spending_log_404:
  "fst (delete_spending_log d i u) = Inl (HTTPException 404 ''Log not found'')
     \<longleftrightarrow> (\<forall>l\<in>set (spending_logs d). \<not> (spending_log.id' l = i \<and> spending_log.user_id l = user.user_id u))"
  using delete_one_count [of "\<lambda>l. spending_log.id' l = i \<and> spending_log.user_id l = user.user_id u" "spending_logs d"]
  by (auto simp: delete_spending_log_def split: prod.splits)

lemma delete_spending_log_unchanged:
  "fst (delete_spending_log d i u) = Inl e \<Longrightarrow> snd (delete_spending_log d i u) = d"
  using delete_one_count [of "\<lambda>l. spending_log.id' l = i \<and> spending_log.user_id l = user.user_id u" "spending_logs d"]
    delete_one_unchanged [of "spending_logs d" "\<lambda>l. spending_log.id' l = i \<and> spending_log.user_id l = user.user_id u"]
  by (auto simp: delete_spending_log_def split: prod.splits if_splits)

lemma delete_spending_log_foreign:
  "l \<in> set (spending_logs d) \<Longrightarrow> spending_log.user_id l \<noteq> user.user_id u
     \<Longrightarrow> l \<in> set (spending_logs (snd (delete_spending_log d i u)))"
  using delete_one_keeps [of l "spending_logs d" "\<lambda>l. spending_log.id' l = i \<and> spending_log.user_id l = user.user_id u"]
  by (auto simp: delete_spending_log_def split: prod.splits if_splits)

lemma delete_exercise_log_404:
  "fst (delete_exercise_log d i u) = Inl (HTTPException 404 ''Log not found'')
     \<longleftrightarrow> (\<forall>l\<in>set (exercise_logs d). \<not> (exercise_log.id' l = i \<and> exercise_log.user_id l = user.user_id u))"
  using delete_one_count [of "\<lambda>l. exercise_log.id' l = i \<and> exercise_log.user_id l = user.user_id u" "exercise_logs d"]
  by (auto simp: delete_exercise_log_def split: prod.splits)

lemma delete_exercise_log_unchanged:
  "fst (delete_exercise_log d i u) = Inl e \<Longrightarrow> snd (delete_exercise_log d i u) = d"
  using delete_one_count [of "\<lambda>l. exercise_log.id' l = i \<and> exercise_log.user_id l = user.user_id u" "exercise_logs d"]
    delete_one_unchanged [of "exercise_logs d" "\<lambda>l. exercise_log.id' l = i \<and> exercise_log.user_id l = user.user_id u"]
  by (auto simp: delete_exercise_log_def split: prod.splits if_splits)

lemma delete_exercise_log_foreign:
  "l \<in> set (exercise_logs d) \<Longrightarrow> exercise_log.user_id l \<noteq> user.user_id u
     \<Longrightarrow> l \<in> set (exercise_logs (snd (delete_exercise_log d i u)))"
  using delete_one_keeps [of l "exercise_logs d" "\<lambda>l. exercise_log.id' l = i \<and> exercise_log.user_id l = user.user_id u"]
  by (auto simp: delete_exercise_log_def split: prod.splits if_splits)

lemma delete_alcohol_log_result:
  "fst (delete_alcohol_log d i u) \<noteq> Inl (HTTPException 404 ''Log not found'')
     \<Longrightarrow> fst (delete_alcohol_log d i u) = Inr ''Deleted''"
  by (auto simp: delete_alcohol_log_def split: prod.splits if_splits)

lemma delete_alcohol_log_spec:
  "(fst (delete_alcohol_log d i u) = Inl (HTTPException 404 ''Log not found'')
        \<longleftrightarrow> (\<forall>l\<in>set (alcohol_logs d). \<not> (alcohol_log.id' l = i \<and> alcohol_log.user_id l = user.user_id u)))
   \<and> (fst (delete_alcohol_log d i u) \<noteq> Inl (HTTPException 404 ''Log not found'')
        \<longrightarrow> fst (delete_alcohol_log d i u) = Inr ''Deleted'')
   \<and> (fst (delete_alcohol_log d i u) = Inl (HTTPException 404 ''Log not found'')
        \<longrightarrow> snd (delete_alcohol_log d i u) = d)
   \<and> (\<forall>l\<in>set (alcohol_logs d). alcohol_log.user_id l \<noteq> user.user_id u
        \<longrightarrow> l \<in> set (alcohol_logs (snd (delete_alcohol_log d i u))))"
  using delete_alcohol_log_404 [of d i u] delete_alcohol_log_result [of d i u]
    delete_alcohol_log_unchanged [of d i u] delete_alcohol_log_foreign [of _ d u i]
  by blast

lemma delete_sleep_log_result:
  "fst (delete_sleep_log d i u) \<noteq> Inl (HTTPException 404 ''Log not found'')
     \<Longrightarrow> fst (delete_sleep_log d i u) = Inr ''Deleted''"
  by (auto simp: delete_sleep_log_def split: prod.splits if_splits)

lemma delete_sleep_log_spec:
  "(fst (delete_sleep_log d i u) = Inl (HTTPException 404 ''Log not found'')
        \<longleftrightarrow> (\<forall>l\<in>set (sleep_logs d). \<not> (sleep_log.id' l = i \<and> sleep_log.user_id l = user.user_id u)))
   \<and> (fst (delete_sleep_log d i u) \<noteq> Inl (HTTPException 404 ''Log not found'')
        \<longrightarrow> fst (delete_sleep_log d i u) = Inr ''Deleted'')
   \<and> (fst (delete_sleep_log d i u) = Inl (HTTPException 404 ''Log not found'')
        \<longrightarrow> snd (delete_sleep_log d i u) = d)
   \<and> (\<forall>l\<in>set (sleep_logs d). sleep_log.user_id l \<noteq> user.user_id u
        \<longrightarrow> l \<in> set (sleep_logs (snd (delete_sleep_log d i u))))"
  using delete_sleep_log_404 [of d i u] delete_sleep_log_result [of d i u]
    delete_sleep_log_unchanged [of d i u] delete_sleep_log_foreign [of _ d u i]
  by blast

lemma delete_nutrition_log_result:
  "fst (delete_nutrition_log d i u) \<noteq> Inl (HTTPException 404 ''Log not found'')
     \<Longrightarrow> fst (delete_nutrition_log d i u) = Inr ''Deleted''"
  by (auto simp: delete_nutrition_log_def split: prod.splits if_splits)

lemma delete_nutrition_log_spec:
  "(fst (delete_nutrition_log d i u) = Inl (HTTPException 404 ''Log not found'')
        \<longleftrightarrow> (\<forall>l\<in>set (nutrition_logs d). \<not> (nutrition_log.id' l = i \<and> nutrition_log.user_id l = user.user_id u)))
   \<and> (fst (delete_nutrition_log d i u) \<noteq> Inl (HTTPException 404 ''Log not found'')
        \<longrightarrow> fst (delete_nutrition_log d i u) = Inr ''Deleted'')
   \<and> (fst (delete_nutrition_log d i u) = Inl (HTTPException 404 ''Log not found'')
        \<longrightarrow> snd (delete_nutrition_log d i u) = d)
   \<and> (\<forall>l\<in>set (nutrition_logs d). nutrition_log.user_id l \<noteq> user.user_id u
        \<longrightarrow> l \<in> set (nutrition_logs (snd (delete_nutrition_log d i u))))"
  using delete_nutrition_log_404 [of d i u] delete_nutrition_log_result [of d i u]
    delete_nutrition_log_unchanged [of d i u] delete_nutrition_log_foreign [of _ d u i]
  by blast

lemma delete_spending_log_result:
  "fst (delete_spending_log d i u) \<noteq> Inl (HTTPException 404 ''Log not found'')
     \<Longrightarrow> fst (delete_spending_log d i u) = Inr ''Deleted''"
  by (auto simp: delete_spending_log_def split: prod.splits if_splits)

lemma delete_spending_log_spec:
  "(fst (delete_spending_log d i u) = Inl (HTTPException 404 ''Log not found'')
        \<longleftrightarrow> (\<forall>l\<in>set (spending_logs d). \<not> (spending_log.id' l = i \<and> spending_log.user_id l = user.user_id u)))
   \<and> (fst (delete_spending_log d i u) \<noteq> Inl (HTTPException 404 ''Log not found'')
        \<longrightarrow> fst (delete_spending_log d i u) = Inr ''Deleted'')
   \<and> (fst (delete_spending_log d i u) = Inl (HTTPException 404 ''Log not found'')
        \<longrightarrow> snd (delete_spending_log d i u) = d)
   \<and> (\<forall>l\<in>set (spending_logs d). spending_log.user_id l \<noteq> user.user_id u
        \<longrightarrow> l \<in> set (spending_logs (snd (delete_spending_log d i u))))"
  using delete_spending_log_404 [of d i u] delete_spending_log_result [of d i u]
    delete_spending_log_unchanged [of d i u] delete_spending_log_foreign [of _ d u i]
  by blast

lemma delete_exercise_log_result:
  "fst (delete_exercise_log d i u) \<noteq> Inl (HTTPException 404 ''Log not found'')
     \<Longrightarrow> fst (delete_exercise_log d i u) = Inr ''Deleted''"
  by (auto simp: delete_exercise_log_def split: prod.splits if_splits)

lemma delete_exercise_log_spec:
  "(fst (delete_exercise_log d i u) = Inl (HTTPException 404 ''Log not found'')
        \<longleftrightarrow> (\<forall>l\<in>set (exercise_logs d). \<not> (exercise_log.id' l = i \<and> exercise_log.user_id l = user.user_id u)))
   \<and> (fst (delete_exercise_log d i u) \<noteq> Inl (HTTPException 404 ''Log not found'')
        \<longrightarrow> fst (delete_exercise_log d i u) = Inr ''Deleted'')
   \<and> (fst (delete_exercise_log d i u) = Inl (HTTPException 404 ''Log not found'')
        \<longrightarrow> snd (delete_exercise_log d i u) = d)
   \<and> (\<forall>l\<in>set (exercise_logs d). exercise_log.user_id l \<noteq> user.user_id u
        \<longrightarrow> l \<in> set (exercise_logs (snd (delete_exercise_log d i u))))"
  using delete_exercise_log_404 [of d i u] delete_exercise_log_result [of d i u]
    delete_exercise_log_unchanged [of d i u] delete_exercise_log_foreign [of _ d u i]
  by blast

text \<open>
  C9. For each of the five log collections, deleting log \<open>i\<close> on behalf of user \<open>u\<close>
  answers 404 (``Log not found'') exactly when no stored document has both that id and
  \<open>u\<close>'s \<open>user_id\<close>, and answers ``Deleted'' otherwise. On 404 the store is unchanged,
  and whatever the answer, every stored log owned by another user is still in the store.
\<close>

theorem delete_log_not_found_iff_no_owned_match:
  "((fst (delete_alcohol_log d i u) = Inl (HTTPException 404 ''Log not found'')
        \<longleftrightarrow> (\<forall>l\<in>set (alcohol_logs d). \<not> (alcohol_log.id' l = i \<and> alcohol_log.user_id l = user.user_id u)))
   \<and> (fst (delete_alcohol_log d i u) \<noteq> Inl (HTTPException 404 ''Log not found'')
        \<longrightarrow> fst (delete_alcohol_log d i u) = Inr ''Deleted'')
   \<and> (fst (delete_alcohol_log d i u) = Inl (HTTPException 404 ''Log not found'')
        \<longrightarrow> snd (delete_alcohol_log d i u) = d)
   \<and> (\<forall>l\<in>set (alcohol_logs d). alcohol_log.user_id l \<noteq> user.user_id u
        \<longrightarrow> l \<in> set (alcohol_logs (snd (delete_alcohol_log d i u)))))
   \<and> ((fst (delete_sleep_log d i u) = Inl (HTTPException 404 ''Log not found'')
        \<longleftrightarrow> (\<forall>l\<in>set (sleep_logs d). \<not> (sleep_log.id' l = i \<and> sleep_log.user_id l = user.user_id u)))
   \<and> (fst (delete_sleep_log d i u) \<noteq> Inl (HTTPException 404 ''Log not found'')
        \<longrightarrow> fst (delete_sleep_log d i u) = Inr ''Deleted'')
   \<and> (fst (delete_sleep_log d i u) = Inl (HTTPException 404 ''Log not found'')
        \<longrightarrow> snd (delete_sleep_log d i u) = d)
   \<and> (\<forall>l\<in>set (sleep_logs d). sleep_log.user_id l \<noteq> user.user_id u
        \<longrightarrow> l \<in> set (sleep_logs (snd (delete_sleep_log d i u)))))
   \<and> ((fst (delete_nutrition_log d i u) = Inl (HTTPException 404 ''Log not found'')
        \<longleftrightarrow> (\<forall>l\<in>set (nutrition_logs d). \<not> (nutrition_log.id' l = i \<and> nutrition_log.user_id l = user.user_id u)))
   \<and> (fst (delete_nutrition_log d i u) \<noteq> Inl (HTTPException 404 ''Log not found'')
        \<longrightarrow> fst (delete_nutrition_log d i u) = Inr ''Deleted'')
   \<and> (fst (delete_nutrition_log d i u) = Inl (HTTPException 404 ''Log not found'')
        \<longrightarrow> snd (delete_nutrition_log d i u) = d)
   \<and> (\<forall>l\<in>set (nutrition_logs d). nutrition_log.user_id l \<noteq> user.user_id u
        \<longrightarrow> l \<in> set (nutrition_logs (snd (delete_nutrition_log d i u)))))
   \<and> ((fst (delete_spending_log d i u) = Inl (HTTPException 404 ''Log not found'')
        \<longleftrightarrow> (\<forall>l\<in>set (spending_logs d). \<not> (spending_log.id' l = i \<and> spending_log.user_id l = user.user_id u)))
   \<and> (fst (delete_spending_log d i u) \<noteq> Inl (HTTPException 404 ''Log not found'')
        \<longrightarrow> fst (delete_spending_log d i u) = Inr ''Deleted'')
   \<and> (fst (delete_spending_log d i u) = Inl (HTTPException 404 ''Log not found'')
        \<longrightarrow> snd (delete_spending_log d i u) = d)
   \<and> (\<forall>l\<in>set (spending_logs d). spending_log.user_id l \<noteq> user.user_id u
        \<longrightarrow> l \<in> set (spending_logs (snd (delete_spending_log d i u)))))
   \<and> ((fst (delete_exercise_log d i u) = Inl (HTTPException 404 ''Log not found'')
        \<longleftrightarrow> (\<forall>l\<in>set (exercise_logs d). \<not> (exercise_log.id' l = i \<and> exercise_log.user_id l = user.user_id u)))
   \<and> (fst (delete_exercise_log d i u) \<noteq> Inl (HTTPException 404 ''Log not found'')
        \<longrightarrow> fst (delete_exercise_log d i u) = Inr ''Deleted'')
   \<and> (fst (delete_exercise_log d i u) = Inl (HTTPException 404 ''Log not found'')
        \<longrightarrow> snd (delete_exercise_log d i u) = d)
   \<and> (\<forall>l\<in>set (exercise_logs d). exercise_log.user_id l \<noteq> user.user_id u
        \<longrightarrow> l \<in> set (exercise_logs (snd (delete_exercise_log d i u)))))"
  apply (rule conjI, rule delete_alcohol_log_spec)
  apply (rule conjI, rule delete_sleep_log_spec)
  apply (rule conjI, rule delete_nutrition_log_spec)
  apply (rule conjI, rule delete_spending_log_spec)
  apply (rule delete_exercise_log_spec)
  done

theorem delete_log_not_found_iff_no_owned_match_witness:
  "fst (delete_exercise_log bobs_db ''log-1'' alice) = Inl (HTTPException 404 ''Log not found'')
   \<and> snd (delete_exercise_log bobs_db ''log-1'' alice) = bobs_db
   \<and> bobs_run \<in> set (exercise_logs (snd (delete_exercise_log bobs_db ''log-1'' alice)))
   \<and> fst (delete_exercise_log bobs_db ''log-1'' bob) = Inr ''Deleted''"
proof -
  note a = delete_log_not_found_iff_no_owned_match [of bobs_db "''log-1''" alice,
      THEN conjunct2, THEN conjunct2, THEN conjunct2, THEN conjunct2]
  note b = delete_log_not_found_iff_no_owned_match [of bobs_db "''log-1''" bob,
      THEN conjunct2, THEN conjunct2, THEN conjunct2, THEN conjunct2]
  have logs: "exercise_logs bobs_db = [bobs_run]"
    by (simp add: bobs_db_def empty_db_def)
  have other: "exercise_log.user_id bobs_run \<noteq> user.user_id alice"
    by (simp add: bobs_run_def alice_def)
  have mine: "exercise_log.id' bobs_run = ''log-1'' \<and> exercise_log.user_id bobs_run = user.user_id bob"
    by (simp add: bobs_run_def bob_def)
  have 1: "fst (delete_exercise_log bobs_db ''log-1'' alice) = Inl (HTTPException 404 ''Log not found'')"
    using a [THEN conjunct1] logs other by simp
  have 2: "snd (delete_exercise_log bobs_db ''log-1'' alice) = bobs_db"
    using a [THEN conjunct2, THEN conjunct2, THEN conjunct1] 1 by blast
  have 3: "bobs_run \<in> set (exercise_logs (snd (delete_exercise_log bobs_db ''log-1'' alice)))"
    using a [THEN conjunct2, THEN conjunct2, THEN conjunct2] logs other by simp
  have "fst (delete_exercise_log bobs_db ''log-1'' bob) \<noteq> Inl (HTTPException 404 ''Log not found'')"
    using b [THEN conjunct1] logs mine by simp
  then have 4: "fst (delete_exercise_log bobs_db ''log-1'' bob) = Inr ''Deleted''"
    using b [THEN conjunct2, THEN conjunct1] by blast
  show ?thesis using 1 2 3 4 by blast
qed

section \<open>The session authenticator\<close>

lemma split_nonempty: "split c s \<noteq> []"
  by (cases s) (auto split: list.splits)

lemma hd_split: "hd (split c s) = takeWhile (\<lambda>x. x \<noteq> c) s"
  by (induction s) (auto simp: split_nonempty split: list.splits)

lemma startswith_Bearer: "startswith h ''Bearer '' = (take 7 h = ''Bearer '')"
  by (simp add: startswith_def eval_nat_numeral)

lemma split_Bearer:
  assumes "take 7 h = ''Bearer ''"
  shows "\<exists>rest. split CHR '' '' h
           = ''Bearer'' # takeWhile (\<lambda>x. x \<noteq> CHR '' '') (drop 7 h) # rest"
proof -
  have "h = take 7 h @ drop 7 h" by simp
  then have h: "h = ''Bearer '' @ drop 7 h" using assms by simp
  obtain p ps where s: "split CHR '' '' (drop 7 h) = p # ps"
    using split_nonempty by (cases "split CHR '' '' (drop 7 h)") auto
  have p: "p = takeWhile (\<lambda>x. x \<noteq> CHR '' '') (drop 7 h)"
    using hd_split [of "CHR '' ''" "drop 7 h"] s by simp
  have "split CHR '' '' (''Bearer '' @ drop 7 h) = ''Bearer'' # p # ps"
    using s by simp
  then show ?thesis using h p by metis
qed

lemma bearer_word:
  assumes "take 7 h = ''Bearer ''"
  shows "(case split CHR '' '' h of _ # t # _ \<Rightarrow> Some t | _ \<Rightarrow> c)
           = Some (takeWhile (\<lambda>x. x \<noteq> CHR '' '') (drop 7 h))"
proof -
  obtain rest where "split CHR '' '' h
      = ''Bearer'' # takeWhile (\<lambda>x. x \<noteq> CHR '' '') (drop 7 h) # rest"
    using split_Bearer [OF assms] by blast
  then show ?thesis by simp
qed

lemma request_session_token_header:
  assumes "\<not> truthy (cookies r ''session_token'')"
  shows "request_session_token r =
           (case headers r ''Authorization'' of
              None \<Rightarrow> cookies r ''session_token''
            | Some h \<Rightarrow> if take 7 h = ''Bearer ''
                         then Some (takeWhile (\<lambda>x. x \<noteq> CHR '' '') (drop 7 h))
                         else cookies r ''session_token'')"
proof (cases "headers r ''Authorization''")
  case None
  then show ?thesis using assms by (simp add: request_session_token_def)
next
  case (Some h)
  show ?thesis
  proof (cases "take 7 h = ''Bearer ''")
    case True
    then have "h \<noteq> []" by auto
    then show ?thesis using assms Some True bearer_word [OF True]
      by (simp add: request_session_token_def startswith_Bearer)
  next
    case False
    then show ?thesis using assms Some
      by (simp add: request_session_token_def startswith_Bearer)
  qed
qed

lemma request_session_token_none:
  "token_of r = None \<Longrightarrow> \<not> truthy (request_session_token r)"
proof (cases "truthy (cookies r ''session_token'')")
  case True
  assume "token_of r = None"
  then show ?thesis using True
    by (cases "cookies r ''session_token''")
       (auto simp: token_of_def split: list.splits)
next
  case False
  assume n: "token_of r = None"
  have c: "cookies r ''session_token'' = None \<or> cookies r ''session_token'' = Some []"
    using False by (cases "cookies r ''session_token''") auto
  show ?thesis
    using n c False
    by (auto simp: request_session_token_header [OF False] token_of_def
             split: option.splits if_splits)
qed

lemma request_session_token_some:
  "token_of r = Some t \<Longrightarrow> request_session_token r = Some t \<and> t \<noteq> []"
proof (cases "truthy (cookies r ''session_token'')")
  case True
  assume "token_of r = Some t"
  then show ?thesis using True
    by (cases "cookies r ''session_token''")
       (auto simp: token_of_def request_session_token_def split: list.splits)
next
  case False
  assume n: "token_of r = Some t"
  have c: "cookies r ''session_token'' = None \<or> cookies r ''session_token'' = Some []"
    using False by (cases "cookies r ''session_token''") auto
  show ?thesis
    using n c False
    by (auto simp: request_session_token_header [OF False] token_of_def
             split: option.splits if_splits)
qed

lemma dt_less_normalised:
  "dt_less (if tzinfo s = None then s\<lparr>tzinfo := Some 0\<rparr> else s) (utc now)
     = Inr (instant s < now)"
  by (cases "tzinfo s") (auto simp: dt_less_def utc_def instant_def)

lemma get_current_user_cases:
  "get_current_user d now r =
     (case token_of r of
        None \<Rightarrow> Inl (HTTPException 401 ''Not authenticated'')
      | Some t \<Rightarrow>
          (case find_one (\<lambda>s. session.session_token s = t) (user_sessions d) of
             None \<Rightarrow> Inl (HTTPException 401 ''Invalid session'')
           | Some s \<Rightarrow>
               if instant (expires_at s) < now
               then Inl (HTTPException 401 ''Session expired'')
               else (case find_one (\<lambda>u. user.user_id u = session.user_id s) (users d) of
                       None \<Rightarrow> Inl (HTTPException 401 ''User not found'')
                     | Some u \<Rightarrow> Inr u)))"
proof (cases "token_of r")
  case None
  then show ?thesis
    using request_session_token_none [OF None] by (simp add: get_current_user_def)
next
  case (Some t)
  have tok: "request_session_token r = Some t" and ne: "t \<noteq> []"
    using request_session_token_some [OF Some] by simp_all
  have q: "(\<lambda>s. Some (session.session_token s) = Some t) = (\<lambda>s. session.session_token s = t)"
    by auto
  show ?thesis
    using Some ne
    by (simp add: get_current_user_def tok q Let_def dt_less_normalised
             split: option.splits)
qed

lemma get_current_user_401:
  "get_current_user d now r = Inl e \<Longrightarrow> status_code e = 401"
  by (auto simp: get_current_user_cases split: option.splits if_splits)

lemma find_one_Some: "find_one q c = Some x \<Longrightarrow> x \<in> set c \<and> q x"
  by (auto simp: find_one_def find_Some_iff)

lemma get_current_user_success:
  assumes "get_current_user d now r = Inr u"
  shows "\<exists>t s. token_of r = Some t \<and> s \<in> set (user_sessions d) \<and> session.session_token s = t
           \<and> now \<le> instant (expires_at s)
           \<and> u \<in> set (users d) \<and> user.user_id u = session.user_id s"
  using assms
  by (auto simp: get_current_user_cases split: option.splits if_splits dest!: find_one_Some)

text \<open>
  C7. The authenticator fails with 401 ``Not authenticated'' when the request presents no
  token (non-empty cookie, or bearer word of the Authorization header); else with 401
  ``Invalid session'' when no session document has that token; else with 401 ``Session
  expired'' when the instant of the first such session's \<open>expires_at\<close>, a naive value
  being read as UTC, is before now, whether or not its user exists; else with 401 ``User
  not found'' when no user has the session's \<open>user_id\<close>; else it returns that user.
  Every failure has status 401.
\<close>

theorem get_current_user_failure_order:
  "get_current_user d now r =
     (case token_of r of
        None \<Rightarrow> Inl (HTTPException 401 ''Not authenticated'')
      | Some t \<Rightarrow>
          (case find_one (\<lambda>s. session.session_token s = t) (user_sessions d) of
             None \<Rightarrow> Inl (HTTPException 401 ''Invalid session'')
           | Some s \<Rightarrow>
               if instant (expires_at s) < now
               then Inl (HTTPException 401 ''Session expired'')
               else (case find_one (\<lambda>u. user.user_id u = session.user_id s) (users d) of
                       None \<Rightarrow> Inl (HTTPException 401 ''User not found'')
                     | Some u \<Rightarrow> Inr u)))
   \<and> (\<forall>e. get_current_user d now r = Inl e \<longrightarrow> status_code e = 401)
   \<and> (\<forall>u. get_current_user d now r = Inr u \<longrightarrow>
         (\<exists>t s. token_of r = Some t \<and> s \<in> set (user_sessions d) \<and> session.session_token s = t
           \<and> now \<le> instant (expires_at s)
           \<and> u \<in> set (users d) \<and> user.user_id u = session.user_id s))"
  using get_current_user_cases [of d now r] get_current_user_401 [of d now r]
    get_current_user_success [of d now r]
  by blast

lemma token_of_cookie_request: "token_of (cookie_request (c # cs)) = Some (c # cs)"
  by (simp add: token_of_def cookie_request_def)

lemma token_of_bearer_request: "token_of (bearer_request ''tok-a'') = Some ''tok-a''"
  by (simp add: token_of_def bearer_request_def)

lemma token_of_empty_cookie: "token_of (cookie_request []) = None"
  by (simp add: token_of_def cookie_request_def)

theorem get_current_user_failure_order_witness:
  "get_current_user auth_db 500 (cookie_request []) = Inl (HTTPException 401 ''Not authenticated'')
   \<and> get_current_user auth_db 500 (cookie_request ''nope'') = Inl (HTTPException 401 ''Invalid session'')
   \<and> get_current_user (auth_db\<lparr>users := []\<rparr>) 2000 (cookie_request ''tok-a'')
       = Inl (HTTPException 401 ''Session expired'')
   \<and> get_current_user (auth_db\<lparr>users := []\<rparr>) 500 (cookie_request ''tok-a'')
       = Inl (HTTPException 401 ''User not found'')
   \<and> get_current_user auth_db 500 (bearer_request ''tok-a'') = Inr alice
   \<and> status_code (HTTPException 401 ''Session expired'') = 401"
proof -
  have s: "user_sessions auth_db = [alice_session]" "users auth_db = [alice]"
    "user_sessions (auth_db\<lparr>users := []\<rparr>) = [alice_session]" "users (auth_db\<lparr>users := []\<rparr>) = []"
    by (simp_all add: auth_db_def empty_db_def)
  have a: "session.session_token alice_session = ''tok-a''" "instant (expires_at alice_session) = 1000"
    "session.user_id alice_session = user.user_id alice"
    by (simp_all add: alice_session_def alice_def utc_def instant_def)
  have 1: "get_current_user auth_db 500 (cookie_request []) = Inl (HTTPException 401 ''Not authenticated'')"
    using get_current_user_failure_order [of auth_db 500 "cookie_request []", THEN conjunct1]
    by (simp add: token_of_empty_cookie)
  have 2: "get_current_user auth_db 500 (cookie_request ''nope'') = Inl (HTTPException 401 ''Invalid session'')"
    using get_current_user_failure_order [of auth_db 500 "cookie_request ''nope''", THEN conjunct1]
    by (simp add: token_of_cookie_request s a find_one_def)
  have 3: "get_current_user (auth_db\<lparr>users := []\<rparr>) 2000 (cookie_request ''tok-a'')
       = Inl (HTTPException 401 ''Session expired'')"
    using get_current_user_failure_order [of "auth_db\<lparr>users := []\<rparr>" 2000 "cookie_request ''tok-a''", THEN conjunct1]
    by (simp add: token_of_cookie_request s a find_one_def)
  have 4: "get_current_user (auth_db\<lparr>users := []\<rparr>) 500 (cookie_request ''tok-a'')
       = Inl (HTTPException 401 ''User not found'')"
    using get_current_user_failure_order [of "auth_db\<lparr>users := []\<rparr>" 500 "cookie_request ''tok-a''", THEN conjunct1]
    by (simp add: token_of_cookie_request s a find_one_def)
  have 5: "get_current_user auth_db 500 (bearer_request ''tok-a'') = Inr alice"
    using get_current_user_failure_order [of auth_db 500 "bearer_request ''tok-a''", THEN conjunct1]
    by (simp add: token_of_bearer_request s a find_one_def)
  have 6: "status_code (HTTPException 401 ''Session expired'') = 401"
    using get_current_user_failure_order [of "auth_db\<lparr>users := []\<rparr>" 2000 "cookie_request ''tok-a''",
        THEN conjunct2, THEN conjunct1] 3
    by blast
  show ?thesis using 1 2 3 4 5 6 by blast
qed

section \<open>Preferences: upsert and default answer\<close>

lemma find_one_None: "find_one q c = None \<longleftrightarrow> (\<forall>x\<in>set c. \<not> q x)"
  by (auto simp: find_one_def find_None_iff)

lemma find_one_insert_one_new:
  "\<forall>x\<in>set c. \<not> q x \<Longrightarrow> q y \<Longrightarrow> find_one q (insert_one y c) = Some y"
  by (induction c) (auto simp: find_one_def insert_one_def)

lemma set_fields_only_user_id:
  "set_fields up (only_user_id uid) =
     \<lparr>preferences.user_id = uid,
      preferences.target_sleep_hours = preferences_update.target_sleep_hours up,
      preferences.usual_sleep_time = preferences_update.usual_sleep_time up,
      preferences.usual_wake_time = preferences_update.usual_wake_time up,
      preferences.late_night_days = preferences_update.late_night_days up,
      preferences.daily_calorie_goal = preferences_update.daily_calorie_goal up,
      preferences.daily_protein_goal = preferences_update.daily_protein_goal up,
      preferences.setup_completed = preferences_update.setup_completed up\<rparr>"
  by (simp add: set_fields_def only_user_id_def split: option.splits)

lemma update_preferences_no_document:
  assumes "\<forall>p\<in>set (user_preferences d). preferences.user_id p \<noteq> user.user_id u"
  shows "update_preferences d up u =
           (Some (set_fields up (only_user_id (user.user_id u))),
            d\<lparr>user_preferences :=
                 user_preferences d @ [set_fields up (only_user_id (user.user_id u))]\<rparr>)"
proof -
  let ?q = "\<lambda>p. preferences.user_id p = user.user_id u"
  let ?doc = "set_fields up (only_user_id (user.user_id u))"
  have none: "find_one ?q (user_preferences d) = None"
    using assms by (simp add: find_one_None)
  have ups: "update_one_upsert ?q (set_fields up) (only_user_id (user.user_id u)) (user_preferences d)
               = insert_one ?doc (user_preferences d)"
    by (simp add: update_one_upsert_def none)
  have q: "?q ?doc" by (simp add: set_fields_def only_user_id_def)
  have "find_one ?q (insert_one ?doc (user_preferences d)) = Some ?doc"
    using find_one_insert_one_new [of "user_preferences d" ?q ?doc] assms q by blast
  then show ?thesis
    by (simp add: update_preferences_def ups Let_def insert_one_def)
qed

lemma get_preferences_no_document:
  assumes "\<forall>p\<in>set (user_preferences d). preferences.user_id p \<noteq> user.user_id u"
  shows "get_preferences d u =
           \<lparr>preferences.user_id = user.user_id u,
            preferences.target_sleep_hours = None,
            preferences.usual_sleep_time = None,
            preferences.usual_wake_time = None,
            preferences.late_night_days = None,
            preferences.daily_calorie_goal = None,
            preferences.daily_protein_goal = None,
            preferences.setup_completed = Some False\<rparr>"
proof -
  have "find_one (\<lambda>p. preferences.user_id p = user.user_id u) (user_preferences d) = None"
    using assms by (simp add: find_one_None)
  then show ?thesis by (simp add: get_preferences_def only_user_id_def)
qed

text \<open>
  C10. For a user without a preferences document, \<^verbatim>\<open>PUT /preferences\<close> appends one new
  document to the collection and returns it: it holds the user's \<open>user_id\<close> and, field by
  field, exactly what the update supplies, so a field the update omits is absent and no
  default goal is filled in. \<^verbatim>\<open>GET /preferences\<close> for such a user answers with the
  \<open>user_id\<close> and \<open>setup_completed = False\<close> only; the handler has no failing branch.
\<close>

theorem update_preferences_upsert_partial:
  assumes "\<forall>p\<in>set (user_preferences d). preferences.user_id p \<noteq> user.user_id u"
  shows "update_preferences d up u =
           (Some \<lparr>preferences.user_id = user.user_id u,
                  preferences.target_sleep_hours = preferences_update.target_sleep_hours up,
                  preferences.usual_sleep_time = preferences_update.usual_sleep_time up,
                  preferences.usual_wake_time = preferences_update.usual_wake_time up,
                  preferences.late_night_days = preferences_update.late_night_days up,
                  preferences.daily_calorie_goal = preferences_update.daily_calorie_goal up,
                  preferences.daily_protein_goal = preferences_update.daily_protein_goal up,
                  preferences.setup_completed = preferences_update.setup_completed up\<rparr>,
            d\<lparr>user_preferences := user_preferences d @
                 [\<lparr>preferences.user_id = user.user_id u,
                   preferences.target_sleep_hours = preferences_update.target_sleep_hours up,
                   preferences.usual_sleep_time = preferences_update.usual_sleep_time up,
                   preferences.usual_wake_time = preferences_update.usual_wake_time up,
                   preferences.late_night_days = preferences_update.late_night_days up,
                   preferences.daily_calorie_goal = preferences_update.daily_calorie_goal up,
                   preferences.daily_protein_goal = preferences_update.daily_protein_goal up,
                   preferences.setup_completed = preferences_update.setup_completed up\<rparr>]\<rparr>)
         \<and> get_preferences d u =
             \<lparr>preferences.user_id = user.user_id u,
              preferences.target_sleep_hours = None,
              preferences.usual_sleep_time = None,
              preferences.usual_wake_time = None,
              preferences.late_night_days = None,
              preferences.daily_calorie_goal = None,
              preferences.daily_protein_goal = None,
              preferences.setup_completed = Some False\<rparr>"
  using update_preferences_no_document [OF assms, of up] get_preferences_no_document [OF assms]
  by (simp only: set_fields_only_user_id simp_thms)

theorem update_preferences_upsert_partial_witness:
  "update_preferences empty_db finish_setup alice =
     (Some \<lparr>preferences.user_id = ''user_a'',
            preferences.target_sleep_hours = None,
            preferences.usual_sleep_time = None,
            preferences.usual_wake_time = None,
            preferences.late_night_days = None,
            preferences.daily_calorie_goal = None,
            preferences.daily_protein_goal = None,
            preferences.setup_completed = Some True\<rparr>,
      empty_db\<lparr>user_preferences :=
        [\<lparr>preferences.user_id = ''user_a'',
          preferences.target_sleep_hours = None,
          preferences.usual_sleep_time = None,
          preferences.usual_wake_time = None,
          preferences.late_night_days = None,
          preferences.daily_calorie_goal = None,
          preferences.daily_protein_goal = None,
          preferences.setup_completed = Some True\<rparr>]\<rparr>)
   \<and> preferences.setup_completed (get_preferences empty_db alice) = Some False
   \<and> preferences.target_sleep_hours (get_preferences empty_db alice) = None"
proof -
  have none: "\<forall>p\<in>set (user_preferences empty_db). preferences.user_id p \<noteq> user.user_id alice"
    by (simp add: empty_db_def)
  have e: "user_preferences empty_db = []" by (simp add: empty_db_def)
  have a: "user.user_id alice = ''user_a''" by (simp add: alice_def)
  show ?thesis
    using update_preferences_upsert_partial [OF none, of finish_setup]
    by (simp add: finish_setup_def e a)
qed

section \<open>One session per user\<close>

lemma create_session_store:
  assumes "create_session d now x st data = Inr (r, d')"
  shows "user_sessions d' =
           delete_many (\<lambda>s. session.user_id s = login_user_id d x data) (user_sessions d)
           @ [\<lparr>session.user_id = login_user_id d x data,
               session.session_token = session_data.session_token data,
               expires_at = utc (now + 7 * one_day),
               session.created_at = now\<rparr>]"
    and "users d' =
           (case find_one (\<lambda>u. user.email u = session_data.email data) (users d) of
              Some u \<Rightarrow> users d
            | None \<Rightarrow> users d @
                [\<lparr>user.user_id = ''user_'' @ take 12 x,
                  user.email = session_data.email data,
                  user.name = session_data.name data,
                  user.picture = session_data.picture data,
                  user.created_at = now\<rparr>])"
  using assms
  by (auto simp: create_session_def login_user_id_def Let_def insert_one_def
           split: if_splits option.splits)

lemma filter_delete_many_same:
  "filter (\<lambda>s. f s = v) (delete_many (\<lambda>s. f s = v) c) = []"
  by (induction c) (auto simp: delete_many_def)

lemma filter_delete_many_other:
  "w \<noteq> v \<Longrightarrow> filter (\<lambda>s. f s = w) (delete_many (\<lambda>s. f s = v) c) = filter (\<lambda>s. f s = w) c"
  by (induction c) (auto simp: delete_many_def)

lemma distinct_delete_many:
  "distinct (map f c) \<Longrightarrow> distinct (map f (delete_many q c))"
  by (simp add: delete_many_def distinct_map_filter)

lemma delete_many_no_key: "v \<notin> f ` set (delete_many (\<lambda>s. f s = v) c)"
  by (auto simp: delete_many_def)

lemma distinct_filter_le_1:
  "distinct (map f c) \<Longrightarrow> length (filter (\<lambda>s. f s = v) c) \<le> 1"
proof (induction c)
  case Nil
  then show ?case by simp
next
  case (Cons a c)
  show ?case
  proof (cases "f a = v")
    case True
    have "f a \<notin> f ` set c" using Cons.prems by simp
    then have "\<forall>x\<in>set c. f x \<noteq> v" using True by blast
    then have "filter (\<lambda>s. f s = v) c = []" by (simp add: filter_empty_conv)
    then show ?thesis using True by simp
  next
    case False
    have "distinct (map f c)" using Cons.prems by simp
    then show ?thesis using Cons.IH False by simp
  qed
qed

lemma create_session_one_session:
  assumes "create_session d now x st data = Inr (r, d')"
  shows "sessions_of d' (login_user_id d x data) =
           [\<lparr>session.user_id = login_user_id d x data,
             session.session_token = session_data.session_token data,
             expires_at = utc (now + 7 * one_day),
             session.created_at = now\<rparr>]"
  using filter_delete_many_same [of session.user_id "login_user_id d x data" "user_sessions d"]
  by (simp add: sessions_of_def create_session_store(1) [OF assms])

lemma create_session_other_users:
  assumes "create_session d now x st data = Inr (r, d')" and "v \<noteq> login_user_id d x data"
  shows "sessions_of d' v = sessions_of d v"
  using filter_delete_many_other [OF assms(2), of session.user_id "user_sessions d"] assms(2)
  by (auto simp: sessions_of_def create_session_store(1) [OF assms(1)])

lemma create_session_single_session:
  assumes "create_session d now x st data = Inr (r, d')" and "single_session d"
  shows "single_session d'"
  using distinct_delete_many [of session.user_id "user_sessions d"
          "\<lambda>s. session.user_id s = login_user_id d x data"]
        delete_many_no_key [of "login_user_id d x data" session.user_id "user_sessions d"]
        assms(2)
  by (simp add: single_session_def create_session_store(1) [OF assms(1)])

lemma logins_single_session: "single_session d \<Longrightarrow> single_session (logins d ls)"
proof (induction ls arbitrary: d)
  case Nil
  then show ?case by simp
next
  case (Cons l ls)
  obtain now x st data where l: "l = (now, x, st, data)" by (cases l) auto
  show ?case
  proof (cases "create_session d now x st data")
    case (Inl e)
    then show ?thesis using Cons l by simp
  next
    case (Inr p)
    obtain r d' where p: "p = (r, d')" by (cases p) auto
    have "single_session d'"
      using create_session_single_session [of d now x st data r d'] Inr p Cons.prems by simp
    then show ?thesis using Cons.IH [of d'] Inr p l by simp
  qed
qed

lemma single_session_empty_db: "single_session empty_db"
  by (simp add: single_session_def empty_db_def)

lemma find_one_append_new:
  "find_one q c = None \<Longrightarrow> q y \<Longrightarrow> find_one q (c @ [y]) = Some y"
  by (induction c) (auto simp: find_one_def split: if_splits)

lemma create_session_reuses_user:
  assumes 1: "create_session d now x st data = Inr (r, d')"
      and 2: "create_session d' now2 x2 st2 data2 = Inr (r2, d2)"
      and e: "session_data.email data2 = session_data.email data"
  shows "users d2 = users d'"
    and "login_user_id d' x2 data2 = login_user_id d x data"
proof -
  let ?q = "\<lambda>u. user.email u = session_data.email data"
  have found: "\<exists>u. find_one ?q (users d') = Some u \<and> user.user_id u = login_user_id d x data"
  proof (cases "find_one ?q (users d)")
    case None
    let ?new = "\<lparr>user.user_id = ''user_'' @ take 12 x,
                  user.email = session_data.email data,
                  user.name = session_data.name data,
                  user.picture = session_data.picture data,
                  user.created_at = now\<rparr>"
    have "users d' = users d @ [?new]"
      using create_session_store(2) [OF 1] None by simp
    moreover have "find_one ?q (users d @ [?new]) = Some ?new"
      using find_one_append_new [OF None, of ?new] by simp
    ultimately show ?thesis using None by (simp add: login_user_id_def)
  next
    case (Some u)
    then show ?thesis
      using create_session_store(2) [OF 1] by (simp add: login_user_id_def)
  qed
  then obtain u where u: "find_one ?q (users d') = Some u"
      "user.user_id u = login_user_id d x data" by blast
  show "users d2 = users d'"
    using create_session_store(2) [OF 2] u(1) e by simp
  show "login_user_id d' x2 data2 = login_user_id d x data"
    using u e by (simp add: login_user_id_def)
qed

text \<open>
  C8. A successful \<^verbatim>\<open>POST /auth/session\<close> removes every session of the resolved user and
  appends the new one: afterwards that user holds exactly the new session, the sessions
  of every other user are as before, and a store in which nobody holds two sessions stays
  so. Hence after any sequence of session creations on the empty store each user holds
  at most one session. A second successful exchange with the same email adds no user,
  resolves to the same \<open>user_id\<close> and again leaves that user exactly one session.
\<close>

theorem create_session_replaces_sessions:
  "(create_session d now x st data = Inr (r, d') \<longrightarrow>
      sessions_of d' (login_user_id d x data) =
        [\<lparr>session.user_id = login_user_id d x data,
          session.session_token = session_data.session_token data,
          expires_at = utc (now + 7 * one_day),
          session.created_at = now\<rparr>]
      \<and> (\<forall>v. v \<noteq> login_user_id d x data \<longrightarrow> sessions_of d' v = sessions_of d v)
      \<and> (single_session d \<longrightarrow> single_session d'))
   \<and> (\<forall>v. length (sessions_of (logins empty_db ls) v) \<le> 1)
   \<and> (create_session d now x st data = Inr (r, d')
        \<and> create_session d' now2 x2 st2 data2 = Inr (r2, d2)
        \<and> session_data.email data2 = session_data.email data \<longrightarrow>
      users d2 = users d'
      \<and> login_user_id d' x2 data2 = login_user_id d x data
      \<and> length (sessions_of d2 (login_user_id d x data)) = 1)"
proof (intro conjI impI allI)
  assume a: "create_session d now x st data = Inr (r, d')"
  show "sessions_of d' (login_user_id d x data) =
        [\<lparr>session.user_id = login_user_id d x data,
          session.session_token = session_data.session_token data,
          expires_at = utc (now + 7 * one_day),
          session.created_at = now\<rparr>]"
    by (rule create_session_one_session [OF a])
  show "sessions_of d' v = sessions_of d v" if "v \<noteq> login_user_id d x data" for v
    by (rule create_session_other_users [OF a that])
  show "single_session d'" if "single_session d"
    by (rule create_session_single_session [OF a that])
next
  fix v
  have "single_session (logins empty_db ls)"
    by (rule logins_single_session [OF single_session_empty_db])
  then show "length (sessions_of (logins empty_db ls) v) \<le> 1"
    unfolding single_session_def sessions_of_def by (rule distinct_filter_le_1)
next
  assume a: "create_session d now x st data = Inr (r, d')
        \<and> create_session d' now2 x2 st2 data2 = Inr (r2, d2)
        \<and> session_data.email data2 = session_data.email data"
  then have 1: "create_session d now x st data = Inr (r, d')"
    and 2: "create_session d' now2 x2 st2 data2 = Inr (r2, d2)"
    and e: "session_data.email data2 = session_data.email data" by simp_all
  show "users d2 = users d'" by (rule create_session_reuses_user(1) [OF 1 2 e])
  show same: "login_user_id d' x2 data2 = login_user_id d x data"
    by (rule create_session_reuses_user(2) [OF 1 2 e])
  show "length (sessions_of d2 (login_user_id d x data)) = 1"
    using create_session_one_session [OF 2] same by simp
qed

lemma create_session_200: "\<exists>r d'. create_session d now x 200 data = Inr (r, d')"
  by (simp add: create_session_def Let_def)

theorem create_session_replaces_sessions_witness:
  "length (sessions_of (logins empty_db [(0, ''0123456789abcdef'', 200, alice_data ''t1'')])
            ''user_0123456789ab'') = 1
   \<and> users (logins empty_db [(0, ''0123456789abcdef'', 200, alice_data ''t1''),
                              (5, ''fedcba9876543210'', 200, alice_data ''t2'')])
       = users (logins empty_db [(0, ''0123456789abcdef'', 200, alice_data ''t1'')])
   \<and> length (sessions_of (logins empty_db [(0, ''0123456789abcdef'', 200, alice_data ''t1''),
                                           (5, ''fedcba9876543210'', 200, alice_data ''t2'')])
               ''user_0123456789ab'') = 1"
proof -
  obtain r1 d1 where 1: "create_session empty_db 0 ''0123456789abcdef'' 200 (alice_data ''t1'') = Inr (r1, d1)"
    using create_session_200 by blast
  obtain r2 d2 where 2: "create_session d1 5 ''fedcba9876543210'' 200 (alice_data ''t2'') = Inr (r2, d2)"
    using create_session_200 by blast
  have e: "session_data.email (alice_data ''t2'') = session_data.email (alice_data ''t1'')"
    by (simp add: alice_data_def)
  have uid: "login_user_id empty_db ''0123456789abcdef'' (alice_data ''t1'') = ''user_0123456789ab''"
    by (simp add: login_user_id_def empty_db_def find_one_def)
  have l1: "logins empty_db [(0, ''0123456789abcdef'', 200, alice_data ''t1'')] = d1"
    using 1 by simp
  have l2: "logins empty_db [(0, ''0123456789abcdef'', 200, alice_data ''t1''),
                              (5, ''fedcba9876543210'', 200, alice_data ''t2'')] = d2"
    using 1 2 by simp
  note t = create_session_replaces_sessions
      [of empty_db 0 "''0123456789abcdef''" 200 "alice_data ''t1''" r1 d1 "[]"
          5 "''fedcba9876543210''" 200 "alice_data ''t2''" r2 d2]
  have a: "length (sessions_of d1 ''user_0123456789ab'') = 1"
    using t [THEN conjunct1] 1 uid by simp
  have b: "users d2 = users d1 \<and> length (sessions_of d2 ''user_0123456789ab'') = 1"
    using t [THEN conjunct2, THEN conjunct2] 1 2 e uid by simp
  show ?thesis using a b l1 l2 by simp
qed

section \<open>The daily completion score\<close>

lemma find_to_list_empty: "\<forall>x\<in>set c. \<not> q x \<Longrightarrow> find_to_list q n c = []"
  by (simp add: find_to_list_def filter_empty_conv)


lemma queried_day_eq:
  "(if \<not> truthy dp then isoformat today else the dp) = queried_day today dp"
  by (cases dp) (auto simp: queried_day_def)

lemma completion_sleep:
  "sleep_percentage (get_completion d today dp u) =
     (if find_to_list (\<lambda>l. sleep_log.user_id l = user.user_id u
                          \<and> sleep_log.date l = queried_day today dp) 100 (sleep_logs d) \<noteq> []
         \<and> \<bar>sum_list (map hours_slept
               (find_to_list (\<lambda>l. sleep_log.user_id l = user.user_id u
                                 \<and> sleep_log.date l = queried_day today dp) 100 (sleep_logs d)))
             - pref_target_sleep
                 (find_one (\<lambda>p. preferences.user_id p = user.user_id u) (user_preferences d))\<bar>
           \<le> 15 / 10
      then 25 else 0)"
  by (simp add: get_completion_def Let_def queried_day_eq)

lemma completion_exercise:
  "exercise_percentage (get_completion d today dp u) =
     (if find_to_list (\<lambda>l. exercise_log.user_id l = user.user_id u
                          \<and> exercise_log.date l = queried_day today dp) 100 (exercise_logs d) \<noteq> []
      then 25 else 0)"
  by (simp add: get_completion_def Let_def queried_day_eq)

lemma completion_alcohol:
  "alcohol_percentage (get_completion d today dp u) =
     (if sum_list (map standard_drinks
           (find_to_list (\<lambda>l. alcohol_log.user_id l = user.user_id u
                             \<and> alcohol_log.date l = queried_day today dp) 100 (alcohol_logs d)))
         \<le> 2
      then 25 else 0)"
  by (simp add: get_completion_def Let_def queried_day_eq)

lemma completion_nutrition_empty:
  assumes "\<forall>l\<in>set (nutrition_logs d). \<not> (nutrition_log.user_id l = user.user_id u
              \<and> nutrition_log.date l = queried_day today dp)"
    and "0 < pref_calorie_goal
               (find_one (\<lambda>p. preferences.user_id p = user.user_id u) (user_preferences d))"
  shows "nutrition_percentage (get_completion d today dp u) = 0"
proof -
  have "find_to_list (\<lambda>l. nutrition_log.user_id l = user.user_id u
            \<and> nutrition_log.date l = queried_day today dp) 100 (nutrition_logs d) = []"
    using assms(1) by (rule find_to_list_empty)
  then show ?thesis using assms(2)
    by (simp add: get_completion_def Let_def queried_day_eq)
qed

lemma completion_total:
  "total_percentage (get_completion d today dp u) =
     exercise_percentage (get_completion d today dp u)
     + sleep_percentage (get_completion d today dp u)
     + alcohol_percentage (get_completion d today dp u)
     + nutrition_percentage (get_completion d today dp u)"
  by (simp add: get_completion_def Let_def)

lemma completion_quarters:
  "exercise_percentage (get_completion d today dp u) \<in> {0, 25}"
  "sleep_percentage (get_completion d today dp u) \<in> {0, 25}"
  "alcohol_percentage (get_completion d today dp u) \<in> {0, 25}"
  "nutrition_percentage (get_completion d today dp u) \<in> {0, 25}"
  by (simp_all add: get_completion_def Let_def)

lemma completion_total_values:
  "total_percentage (get_completion d today dp u) \<in> {0, 25, 50, 75, 100}"
  using completion_quarters [of d today dp u] completion_total [of d today dp u]
  by auto

text \<open>
  C3. The total percentage is always the sum of the four dimension scores and one of 0, 25,
  50, 75, 100. On a day for which the user has no exercise, sleep, alcohol or nutrition log,
  with positive calorie and protein goals (the defaults 2000 and 100 included, and whatever
  the sleep target, the default 7.5 included), the scores are exercise 0, sleep 0, alcohol
  25, nutrition 0 and the total is 25.
\<close>

theorem get_completion_empty_day:
  "total_percentage (get_completion d today dp u) =
     exercise_percentage (get_completion d today dp u)
     + sleep_percentage (get_completion d today dp u)
     + alcohol_percentage (get_completion d today dp u)
     + nutrition_percentage (get_completion d today dp u)
   \<and> total_percentage (get_completion d today dp u) \<in> {0, 25, 50, 75, 100}
   \<and> ((\<forall>l\<in>set (exercise_logs d). \<not> (exercise_log.user_id l = user.user_id u
            \<and> exercise_log.date l = queried_day today dp))
       \<and> (\<forall>l\<in>set (sleep_logs d). \<not> (sleep_log.user_id l = user.user_id u
            \<and> sleep_log.date l = queried_day today dp))
       \<and> (\<forall>l\<in>set (alcohol_logs d). \<not> (alcohol_log.user_id l = user.user_id u
            \<and> alcohol_log.date l = queried_day today dp))
       \<and> (\<forall>l\<in>set (nutrition_logs d). \<not> (nutrition_log.user_id l = user.user_id u
            \<and> nutrition_log.date l = queried_day today dp))
       \<and> 0 < pref_calorie_goal
               (find_one (\<lambda>p. preferences.user_id p = user.user_id u) (user_preferences d))
       \<and> 0 < pref_protein_goal
               (find_one (\<lambda>p. preferences.user_id p = user.user_id u) (user_preferences d))
       \<longrightarrow> exercise_percentage (get_completion d today dp u) = 0
         \<and> sleep_percentage (get_completion d today dp u) = 0
         \<and> alcohol_percentage (get_completion d today dp u) = 25
         \<and> nutrition_percentage (get_completion d today dp u) = 0
         \<and> total_percentage (get_completion d today dp u) = 25)"
proof (intro conjI impI)
  show "total_percentage (get_completion d today dp u) =
     exercise_percentage (get_completion d today dp u)
     + sleep_percentage (get_completion d today dp u)
     + alcohol_percentage (get_completion d today dp u)
     + nutrition_percentage (get_completion d today dp u)"
    by (rule completion_total)
  show "total_percentage (get_completion d today dp u) \<in> {0, 25, 50, 75, 100}"
    by (rule completion_total_values)
next
  assume a: "(\<forall>l\<in>set (exercise_logs d). \<not> (exercise_log.user_id l = user.user_id u
            \<and> exercise_log.date l = queried_day today dp))
       \<and> (\<forall>l\<in>set (sleep_logs d). \<not> (sleep_log.user_id l = user.user_id u
            \<and> sleep_log.date l = queried_day today dp))
       \<and> (\<forall>l\<in>set (alcohol_logs d). \<not> (alcohol_log.user_id l = user.user_id u
            \<and> alcohol_log.date l = queried_day today dp))
       \<and> (\<forall>l\<in>set (nutrition_logs d). \<not> (nutrition_log.user_id l = user.user_id u
            \<and> nutrition_log.date l = queried_day today dp))
       \<and> 0 < pref_calorie_goal
               (find_one (\<lambda>p. preferences.user_id p = user.user_id u) (user_preferences d))
       \<and> 0 < pref_protein_goal
               (find_one (\<lambda>p. preferences.user_id p = user.user_id u) (user_preferences d))"
  have e: "find_to_list (\<lambda>l. exercise_log.user_id l = user.user_id u
            \<and> exercise_log.date l = queried_day today dp) 100 (exercise_logs d) = []"
    using a by (intro find_to_list_empty) blast
  have s: "find_to_list (\<lambda>l. sleep_log.user_id l = user.user_id u
            \<and> sleep_log.date l = queried_day today dp) 100 (sleep_logs d) = []"
    using a by (intro find_to_list_empty) blast
  have al: "find_to_list (\<lambda>l. alcohol_log.user_id l = user.user_id u
            \<and> alcohol_log.date l = queried_day today dp) 100 (alcohol_logs d) = []"
    using a by (intro find_to_list_empty) blast
  show 1: "exercise_percentage (get_completion d today dp u) = 0"
    by (simp add: completion_exercise e)
  show 2: "sleep_percentage (get_completion d today dp u) = 0"
    by (simp add: completion_sleep s)
  show 3: "alcohol_percentage (get_completion d today dp u) = 25"
    by (simp add: completion_alcohol al)
  show 4: "nutrition_percentage (get_completion d today dp u) = 0"
    using a by (intro completion_nutrition_empty) blast+
  show "total_percentage (get_completion d today dp u) = 25"
    using completion_total [of d today dp u] 1 2 3 4 by simp
qed

theorem get_completion_empty_day_witness:
  "exercise_percentage (get_completion empty_db 738886 None alice) = 0
   \<and> sleep_percentage (get_completion empty_db 738886 None alice) = 0
   \<and> alcohol_percentage (get_completion empty_db 738886 None alice) = 25
   \<and> nutrition_percentage (get_completion empty_db 738886 None alice) = 0
   \<and> total_percentage (get_completion empty_db 738886 None alice) = 25
   \<and> pref_target_sleep
        (find_one (\<lambda>p. preferences.user_id p = user.user_id alice) (user_preferences empty_db))
      = 75 / 10"
proof -
  have p: "find_one (\<lambda>p. preferences.user_id p = user.user_id alice) (user_preferences empty_db) = None"
    by (simp add: empty_db_def find_one_def)
  have g: "0 < pref_calorie_goal None" "0 < pref_protein_goal None" "pref_target_sleep None = 75 / 10"
    by (simp_all add: pref_calorie_goal_def pref_protein_goal_def pref_target_sleep_def)
  have l: "exercise_logs empty_db = []" "sleep_logs empty_db = []" "alcohol_logs empty_db = []"
    "nutrition_logs empty_db = []"
    by (simp_all add: empty_db_def)
  show ?thesis
    using get_completion_empty_day [of empty_db 738886 None alice, THEN conjunct2, THEN conjunct2]
    by (simp add: p g l)
qed




section \<open>Sleep debt\<close>


lemma py_round2_hundredths: "py_round2 (of_int k / 100) = of_int k / 100"
  by (simp add: py_round2_def Let_def)




















section \<open>Hours slept\<close>



lemma dt_le_mixed:
  "\<not> same_kind a b \<Longrightarrow> dt_le a b = Inl TypeError"
  by (cases "tzinfo a"; cases "tzinfo b") (auto simp: same_kind_def dt_le_def)



lemma log_sleep_mixed:
  "\<not> same_kind wake sleep \<Longrightarrow> log_sleep d i sleep wake day u = Inl TypeError"
  by (simp add: log_sleep_def dt_le_mixed)





section \<open>Nutrition logging when the analysis fails\<close>

lemma log_nutrition_failed:
  assumes "response = Raised \<or> response = NoMatch \<or> response = NotJson"
  shows "log_nutrition d now i response entry u =
           Inr (nutrition_doc now i entry u 0 0 False,
                d\<lparr>nutrition_logs := nutrition_logs d @ [nutrition_doc now i entry u 0 0 False]\<rparr>)"
  using assms by (auto simp: log_nutrition_def nutrition_doc_def insert_one_def Let_def)

lemma log_nutrition_object:
  assumes "c \<noteq> Invalid" "p \<noteq> Invalid" "h \<noteq> Invalid"
  shows "log_nutrition d now i (Object c p h) entry u =
           Inr (nutrition_doc now i entry u (or_default c 0) (or_default p 0) (or_default h False),
                d\<lparr>nutrition_logs := nutrition_logs d @
                  [nutrition_doc now i entry u (or_default c 0) (or_default p 0)
                     (or_default h False)]\<rparr>)"
  using assms
  by (cases c; cases p; cases h)
     (simp_all add: log_nutrition_def nutrition_doc_def insert_one_def Let_def)

text \<open>
  C6 as amended. When the analysis call raises (a timeout included), or its text has no
  \<^verbatim>\<open>{...}\<close> match, or the match is not JSON, the request succeeds, returns the log with
  calories 0, protein 0 and \<open>is_healthy\<close> false, and that log is appended to the store; no
  error reaches the caller. When the match is a JSON object whose values the log model
  accepts, the request succeeds as well and each derived field is the object's value, or
  its default (0, 0, false) when the key is missing.
\<close>

theorem log_nutrition_degrades:
  "(response = Raised \<or> response = NoMatch \<or> response = NotJson \<longrightarrow>
      log_nutrition d now i response entry u =
        Inr (nutrition_doc now i entry u 0 0 False,
             d\<lparr>nutrition_logs := nutrition_logs d @ [nutrition_doc now i entry u 0 0 False]\<rparr>)
      \<and> calories (nutrition_doc now i entry u 0 0 False) = 0
      \<and> protein (nutrition_doc now i entry u 0 0 False) = 0
      \<and> is_healthy (nutrition_doc now i entry u 0 0 False) = False)
   \<and> (c \<noteq> Invalid \<and> p \<noteq> Invalid \<and> h \<noteq> Invalid \<longrightarrow>
      log_nutrition d now i (Object c p h) entry u =
        Inr (nutrition_doc now i entry u (or_default c 0) (or_default p 0) (or_default h False),
             d\<lparr>nutrition_logs := nutrition_logs d @
               [nutrition_doc now i entry u (or_default c 0) (or_default p 0)
                  (or_default h False)]\<rparr>))"
proof (intro conjI impI)
  assume a: "response = Raised \<or> response = NoMatch \<or> response = NotJson"
  show "log_nutrition d now i response entry u =
        Inr (nutrition_doc now i entry u 0 0 False,
             d\<lparr>nutrition_logs := nutrition_logs d @ [nutrition_doc now i entry u 0 0 False]\<rparr>)"
    by (rule log_nutrition_failed [OF a])
  show "calories (nutrition_doc now i entry u 0 0 False) = 0"
    "protein (nutrition_doc now i entry u 0 0 False) = 0"
    "is_healthy (nutrition_doc now i entry u 0 0 False) = False"
    by (simp_all add: nutrition_doc_def)
next
  assume "c \<noteq> Invalid \<and> p \<noteq> Invalid \<and> h \<noteq> Invalid"
  then show "log_nutrition d now i (Object c p h) entry u =
        Inr (nutrition_doc now i entry u (or_default c 0) (or_default p 0) (or_default h False),
             d\<lparr>nutrition_logs := nutrition_logs d @
               [nutrition_doc now i entry u (or_default c 0) (or_default p 0)
                  (or_default h False)]\<rparr>)"
    using log_nutrition_object [of c p h] by blast
qed

theorem log_nutrition_degrades_witness:
  "log_nutrition empty_db 0 ''n-1'' Raised lunch alice =
     Inr (nutrition_doc 0 ''n-1'' lunch alice 0 0 False,
          empty_db\<lparr>nutrition_logs := [nutrition_doc 0 ''n-1'' lunch alice 0 0 False]\<rparr>)
   \<and> log_nutrition empty_db 0 ''n-1'' NotJson lunch alice =
     Inr (nutrition_doc 0 ''n-1'' lunch alice 0 0 False,
          empty_db\<lparr>nutrition_logs := [nutrition_doc 0 ''n-1'' lunch alice 0 0 False]\<rparr>)
   \<and> log_nutrition empty_db 0 ''n-1'' (Object (Valid 520) (Valid 42) (Valid True)) lunch alice =
     Inr (nutrition_doc 0 ''n-1'' lunch alice 520 42 True,
          empty_db\<lparr>nutrition_logs := [nutrition_doc 0 ''n-1'' lunch alice 520 42 True]\<rparr>)"
proof -
  have e: "nutrition_logs empty_db = []" by (simp add: empty_db_def)
  have 1: "log_nutrition empty_db 0 ''n-1'' Raised lunch alice =
     Inr (nutrition_doc 0 ''n-1'' lunch alice 0 0 False,
          empty_db\<lparr>nutrition_logs := [nutrition_doc 0 ''n-1'' lunch alice 0 0 False]\<rparr>)"
    using log_nutrition_degrades [of Raised empty_db 0 "''n-1''" lunch alice, THEN conjunct1]
    by (simp add: e)
  have 2: "log_nutrition empty_db 0 ''n-1'' NotJson lunch alice =
     Inr (nutrition_doc 0 ''n-1'' lunch alice 0 0 False,
          empty_db\<lparr>nutrition_logs := [nutrition_doc 0 ''n-1'' lunch alice 0 0 False]\<rparr>)"
    using log_nutrition_degrades [of NotJson empty_db 0 "''n-1''" lunch alice, THEN conjunct1]
    by (simp add: e)
  have 3: "log_nutrition empty_db 0 ''n-1'' (Object (Valid 520) (Valid 42) (Valid True)) lunch alice =
     Inr (nutrition_doc 0 ''n-1'' lunch alice 520 42 True,
          empty_db\<lparr>nutrition_logs := [nutrition_doc 0 ''n-1'' lunch alice 520 42 True]\<rparr>)"
    using log_nutrition_degrades [where c = "Valid 520" and p = "Valid 42" and h = "Valid True"
        and d = empty_db and now = 0 and i = "''n-1''" and entry = lunch and u = alice,
        THEN conjunct2]
    by (simp add: e)
  show ?thesis using 1 2 3 by blast
qed

text \<open>
  The claim as first stated fails for a response whose JSON object lacks the expected
  shape: from \<^verbatim>\<open>{"calories": 500}\<close> the log keeps 500 calories instead of 0.
\<close>

theorem log_nutrition_partial_object_counterexample:
  "log_nutrition empty_db 0 ''n-1'' (Object (Valid 500) Missing Missing) lunch alice =
     Inr (nutrition_doc 0 ''n-1'' lunch alice 500 0 False,
          empty_db\<lparr>nutrition_logs := [nutrition_doc 0 ''n-1'' lunch alice 500 0 False]\<rparr>)
   \<and> calories (nutrition_doc 0 ''n-1'' lunch alice 500 0 False) = 500
   \<and> calories (nutrition_doc 0 ''n-1'' lunch alice 500 0 False) \<noteq> 0"
  by (simp add: log_nutrition_def nutrition_doc_def insert_one_def Let_def empty_db_def)

section \<open>The window of the spending summary\<close>

lemma py_int_01: "py_int ''01'' = Some 1"
  by (simp add: py_int_def digit_value_def)

lemma window_january: "spending_window today (Some ''2024-01'') = Inr (''2024-01-01'', ''2024-02-01'')"
  by (simp add: spending_window_def py_int_01 zero_pad_def)

text \<open>
  C4 at its failing input. Asked for the month \<^verbatim>\<open>2024-01\<close>, the handler queries the dates
  from \<^verbatim>\<open>2024-01-01\<close> to \<^verbatim>\<open>2024-02-01\<close> inclusive, so a purchase of 10 made on the first of
  February, the user's only log, is summed into the January total, its category and its
  day.
\<close>

theorem get_spending_summary_includes_next_month_first:
  "spending_window 738886 (Some ''2024-01'') = Inr (''2024-01-01'', ''2024-02-01'')
   \<and> map_sum id total (get_spending_summary february_db 738886 (Some ''2024-01'') alice) = Inr 10
   \<and> map_sum id (\<lambda>r. by_category r ''Food'')
        (get_spending_summary february_db 738886 (Some ''2024-01'') alice) = Inr (Some 10)
   \<and> map_sum id (\<lambda>r. daily_totals r ''2024-02-01'')
        (get_spending_summary february_db 738886 (Some ''2024-01'') alice) = Inr (Some 10)"
proof -
  have r: "py_round2 10 = 10" using py_round2_hundredths [of 1000] by simp
  have l: "find_to_list
             (\<lambda>l. spending_log.user_id l = user.user_id alice
                  \<and> ''2024-01-01'' \<le> spending_log.date l
                  \<and> spending_log.date l \<le> ''2024-02-01'')
             1000 (spending_logs february_db) = [february_first]"
    by (simp add: find_to_list_def february_db_def empty_db_def february_first_def alice_def)
  have s: "get_spending_summary february_db 738886 (Some ''2024-01'') alice =
      Inr \<lparr>total = py_round2 (sum_list (map amount [february_first])),
            by_category = add_up category Map.empty [february_first],
            daily_totals = add_up spending_log.date Map.empty [february_first]\<rparr>"
    by (simp add: get_spending_summary_def window_january l)
  show ?thesis
    by (simp add: s window_january february_first_def r)
qed

end
